theory Spec2Isabelle
  imports Main "HOL-Library.AList"
begin

section \<open>Platform model: numbers as text, and the Date object\<close>

text \<open>
  The application is a TypeScript/React program (\<^verbatim>\<open>src/App.tsx\<close>).  Its numbers are
  modelled as \<^typ>\<open>int\<close> (every quantity the engine handles is a whole number of seconds
  or milliseconds), its strings as \<^typ>\<open>string\<close>.  The wall clock \<^verbatim>\<open>Date.now()\<close> is an
  explicit argument \<open>now\<close> (milliseconds since the epoch) of every handler that reads it;
  one handler invocation reads one clock value.  Handlers run one after the other, each
  on the state the one before has left.
\<close>

subsection \<open>Decimal rendering: template literals and \<^verbatim>\<open>toString\<close>\<close>

definition digit_char :: "nat \<Rightarrow> char" where
  "digit_char k = ''0123456789'' ! (k mod 10)"

fun digits :: "nat \<Rightarrow> string" where
  "digits n = (if n < 10 then [digit_char n] else digits (n div 10) @ [digit_char (n mod 10)])"

declare digits.simps [simp del]

definition show_int :: "int \<Rightarrow> string" where
  \<comment> \<open>\<^verbatim>\<open>`${n}`\<close> for a whole number below \<open>10\<^sup>2\<^sup>1\<close> in magnitude\<close>
  "show_int n = (if n < 0 then CHR ''-'' # digits (nat (- n)) else digits (nat n))"

definition pad :: "nat \<Rightarrow> nat \<Rightarrow> string" where
  \<comment> \<open>\<^verbatim>\<open>String(n).padStart(w, '0')\<close>\<close>
  "pad w n = replicate (w - length (digits n)) CHR ''0'' @ digits n"

subsection \<open>Calendar arithmetic of the Date object\<close>

text \<open>
  A Date is its time value: \<open>Some ms\<close>, or \<open>None\<close> for an Invalid Date.  Local time is
  the time value shifted by a fixed offset \<open>tz\<close> (milliseconds east of UTC); daylight
  saving changes of the offset are not modelled.
\<close>

type_synonym jsdate = "int option"

definition msPerDay :: int where
  "msPerDay = 86400000"

definition maxTime :: int where
  "maxTime = 8640000000000000"

definition timeClip :: "int \<Rightarrow> jsdate" where
  "timeClip ms = (if \<bar>ms\<bar> \<le> maxTime then Some ms else None)"

definition civil_from_days :: "int \<Rightarrow> int \<times> int \<times> int" where
  \<comment> \<open>day number since 1970-01-01 to (year, month 1..12, day 1..31), proleptic Gregorian\<close>
  "civil_from_days z =
     (let z' = z + 719468;
          era = z' div 146097;
          doe = z' mod 146097;
          yoe = (doe - doe div 1460 + doe div 36524 - doe div 146096) div 365;
          doy = doe - (365 * yoe + yoe div 4 - yoe div 100);
          mp = (5 * doy + 2) div 153;
          d = doy - (153 * mp + 2) div 5 + 1;
          m = (if mp < 10 then mp + 3 else mp - 9);
          y = yoe + era * 400
      in (if m \<le> 2 then y + 1 else y, m, d))"

definition days_from_civil :: "int \<Rightarrow> int \<Rightarrow> int \<Rightarrow> int" where
  "days_from_civil y m d =
     (let y' = (if m \<le> 2 then y - 1 else y);
          era = y' div 400;
          yoe = y' mod 400;
          doy = (153 * (if m > 2 then m - 3 else m + 9) + 2) div 5 + d - 1;
          doe = yoe * 365 + yoe div 4 - yoe div 100 + doy
      in era * 146097 + doe - 719468)"

definition getFullYear :: "int \<Rightarrow> int \<Rightarrow> int" where
  "getFullYear tz ms = fst (civil_from_days ((ms + tz) div msPerDay))"

definition getMonth :: "int \<Rightarrow> int \<Rightarrow> int" where
  \<comment> \<open>months count from 0\<close>
  "getMonth tz ms = fst (snd (civil_from_days ((ms + tz) div msPerDay))) - 1"

definition getDate :: "int \<Rightarrow> int \<Rightarrow> int" where
  "getDate tz ms = snd (snd (civil_from_days ((ms + tz) div msPerDay)))"

definition getDay :: "int \<Rightarrow> int \<Rightarrow> int" where
  \<comment> \<open>0 is Sunday; 1970-01-01 was a Thursday\<close>
  "getDay tz ms = ((ms + tz) div msPerDay + 4) mod 7"

definition newDateYMD :: "int \<Rightarrow> int \<Rightarrow> int \<Rightarrow> int \<Rightarrow> jsdate" where
  \<comment> \<open>\<^verbatim>\<open>new Date(year, month, day)\<close>: local midnight; years 0..99 mean 1900..1999.
      Only called with a month in 0..11.\<close>
  "newDateYMD tz y m d =
     (let y' = (if 0 \<le> y \<and> y \<le> 99 then 1900 + y else y)
      in timeClip (days_from_civil y' (m + 1) d * msPerDay - tz))"

definition toISOString_ms :: "int \<Rightarrow> string" where
  \<comment> \<open>\<^verbatim>\<open>new Date(ms).toISOString()\<close> for a time value in range: UTC fields,
      \<^verbatim>\<open>YYYY-MM-DDTHH:mm:ss.sssZ\<close>, six signed year digits outside 0..9999.  Beyond
      \<open>maxTime\<close> the platform raises a RangeError; the log builder only formats the
      clock value and the clock value less a session length, which stay inside.\<close>
  "toISOString_ms ms =
     (let (y, m, d) = civil_from_days (ms div msPerDay);
          r = ms mod msPerDay;
          year = (if 0 \<le> y \<and> y \<le> 9999 then pad 4 (nat y)
                  else (if y < 0 then CHR ''-'' else CHR ''+'') # pad 6 (nat \<bar>y\<bar>))
      in year @ ''-'' @ pad 2 (nat m) @ ''-'' @ pad 2 (nat d) @ ''T''
         @ pad 2 (nat (r div 3600000)) @ '':'' @ pad 2 (nat (r div 60000 mod 60)) @ '':''
         @ pad 2 (nat (r div 1000 mod 60)) @ ''.'' @ pad 3 (nat (r mod 1000)) @ ''Z'')"

subsection \<open>\<^verbatim>\<open>parseInt\<close>, rounding and remainder\<close>

definition isSpace :: "char \<Rightarrow> bool" where
  \<comment> \<open>the ASCII white space that \<^verbatim>\<open>parseInt\<close> skips\<close>
  "isSpace c = (c \<in> set [CHR '' '', CHR 0x09, CHR 0x0A, CHR 0x0B, CHR 0x0C, CHR 0x0D])"

definition isDigit :: "char \<Rightarrow> bool" where
  "isDigit c = (c \<in> set ''0123456789'')"

definition digits_value :: "string \<Rightarrow> nat" where
  "digits_value ds = foldl (\<lambda>a c. 10 * a + (of_char c - 48)) 0 ds"

definition parseInt :: "string \<Rightarrow> int option" where
  \<comment> \<open>\<^verbatim>\<open>parseInt(s, 10)\<close>; \<open>None\<close> is NaN\<close>
  "parseInt s =
     (let s1 = dropWhile isSpace s;
          neg = (case s1 of c # r \<Rightarrow> c = CHR ''-'' | [] \<Rightarrow> False);
          s2 = (case s1 of c # r \<Rightarrow> if c = CHR ''-'' \<or> c = CHR ''+'' then r else s1 | [] \<Rightarrow> []);
          ds = takeWhile isDigit s2
      in if ds = [] then None
         else Some (if neg then - int (digits_value ds) else int (digits_value ds)))"

definition round_div1000 :: "int \<Rightarrow> int" where
  \<comment> \<open>\<^verbatim>\<open>Math.round(a / 1000)\<close>: halves round up\<close>
  "round_div1000 a = (a + 500) div 1000"

definition ceil_div1000 :: "int \<Rightarrow> int" where
  \<comment> \<open>\<^verbatim>\<open>Math.ceil(a / 1000)\<close>\<close>
  "ceil_div1000 a = - ((- a) div 1000)"

definition js_rem :: "int \<Rightarrow> int \<Rightarrow> int" where
  \<comment> \<open>the \<^verbatim>\<open>%\<close> operator: the remainder takes the sign of the dividend\<close>
  "js_rem a b = (if a < 0 then - ((- a) mod \<bar>b\<bar>) else a mod \<bar>b\<bar>)"

section \<open>Data model\<close>

datatype category = Goals | Waste

datatype view = Task category | Log

record Schedule =
  sched_type :: string
  daysOfWeek :: "int list option"
  date :: "string option"
  anchorDate :: "string option"

record Item =
  item_id :: string
  item_text :: string
  completed :: bool
  createdDate :: string
  item_elapsedSeconds :: "int option"
  link :: "string option"
  schedule :: "Schedule option"

record LogEntry =
  entry_id :: string
  itemId :: string
  entry_itemText :: string
  entry_tab :: category
  startISO :: string
  endISO :: string
  durationSeconds :: int

datatype timer_mode = Countdown | Stopwatch

record TimerState =
  mode :: timer_mode
  seconds :: int
  remainingSeconds :: "int option"
  totalSeconds :: "int option"
  elapsedSeconds :: "int option"
  targetTimeMs :: "int option"
  isRunning :: bool
  startSeconds :: "int option"
  startRemaining :: "int option"
  itemText :: string
  timer_tab :: category

record ItemLists =
  goals :: "Item list"
  waste :: "Item list"

record LastLog =
  time :: int
  duration :: int

datatype popup_mode = DurationMode | TargetMode | StopwatchMode

datatype period = AM | PM

text \<open>
  The component state that the engine reads and writes.  \<open>timers\<close> is the object
  \<^verbatim>\<open>{ [key: string]: TimerState }\<close>, kept as an association list with distinct keys in
  insertion order, which is the order \<^verbatim>\<open>Object.keys\<close> visits string keys in (keys that
  are array indices, numerals below \<open>2\<^sup>3\<^sup>2 - 1\<close>, would come first; task ids are
  millisecond timestamps, far above that).  The order only decides the order of the
  entries that one tick appends.  \<open>lastTickRef\<close> and \<open>lastLogRef\<close> are the two refs of
  the same names.
\<close>

record app =
  tab :: view
  items :: ItemLists
  timers :: "(string \<times> TimerState) list"
  logs :: "LogEntry list"
  lastTickRef :: int
  lastLogRef :: "string \<rightharpoonup> LastLog"
  timerPopupItemId :: "string option"
  timerPopupMode :: popup_mode
  timerPopupMinutes :: int
  timerPopupHour :: string
  timerPopupMinute :: string
  timerPopupPeriod :: period

definition isTaskTab :: "app \<Rightarrow> bool" where
  "isTaskTab s = (tab s \<noteq> Log)"

definition tabItems :: "category \<Rightarrow> ItemLists \<Rightarrow> Item list" where
  \<comment> \<open>\<^verbatim>\<open>items[tab]\<close>\<close>
  "tabItems c its = (case c of Goals \<Rightarrow> goals its | Waste \<Rightarrow> waste its)"

definition setTabItems :: "category \<Rightarrow> Item list \<Rightarrow> ItemLists \<Rightarrow> ItemLists" where
  \<comment> \<open>\<^verbatim>\<open>{ ...items, [tab]: list }\<close>\<close>
  "setTabItems c l its = (case c of Goals \<Rightarrow> its\<lparr>goals := l\<rparr> | Waste \<Rightarrow> its\<lparr>waste := l\<rparr>)"

definition findItem :: "string \<Rightarrow> Item list \<Rightarrow> Item option" where
  \<comment> \<open>\<^verbatim>\<open>list.find(i => i.id === id)\<close>\<close>
  "findItem i l = find (\<lambda>it. item_id it = i) l"

section \<open>Session log builder\<close>

definition buildLogEntry :: "int \<Rightarrow> Item \<Rightarrow> int \<Rightarrow> category \<Rightarrow> LogEntry" where
  "buildLogEntry now item dur entryTab =
     (let endTime = now; startTime = endTime - dur * 1000
      in \<lparr>entry_id = show_int endTime @ ''-'' @ item_id item,
          itemId = item_id item,
          entry_itemText = item_text item,
          entry_tab = entryTab,
          startISO = toISOString_ms startTime,
          endISO = toISOString_ms endTime,
          durationSeconds = dur\<rparr>)"

definition buildLogEntryFromFields :: "int \<Rightarrow> string \<Rightarrow> string \<Rightarrow> category \<Rightarrow> int \<Rightarrow> LogEntry" where
  "buildLogEntryFromFields now iid itext entryTab dur =
     (let endTime = now; startTime = endTime - dur * 1000
      in \<lparr>entry_id = show_int endTime @ ''-'' @ iid,
          itemId = iid,
          entry_itemText = itext,
          entry_tab = entryTab,
          startISO = toISOString_ms startTime,
          endISO = toISOString_ms endTime,
          durationSeconds = dur\<rparr>)"

definition appendLogEntry :: "int \<Rightarrow> LogEntry \<Rightarrow> app \<Rightarrow> app" where
  "appendLogEntry now entry s =
     (case lastLogRef s (itemId entry) of
        Some lastRec \<Rightarrow>
          if now - time lastRec < 1500 \<and> duration lastRec = durationSeconds entry then s
          else s\<lparr>lastLogRef := (lastLogRef s)(itemId entry \<mapsto> \<lparr>time = now, duration = durationSeconds entry\<rparr>),
                 logs := logs s @ [entry]\<rparr>
      | None \<Rightarrow>
          s\<lparr>lastLogRef := (lastLogRef s)(itemId entry \<mapsto> \<lparr>time = now, duration = durationSeconds entry\<rparr>),
            logs := logs s @ [entry]\<rparr>)"

definition getTimerDuration :: "TimerState option \<Rightarrow> int option" where
  "getTimerDuration timer =
     (case timer of
        None \<Rightarrow> None
      | Some t \<Rightarrow> if mode t = Countdown
                  then Some (case elapsedSeconds t of None \<Rightarrow> 0 | Some e \<Rightarrow> e)
                  else Some (seconds t))"

section \<open>Timer engine\<close>

definition tickTimer :: "int \<Rightarrow> string \<times> TimerState \<Rightarrow> (string \<times> TimerState) \<times> LogEntry list" where
  \<comment> \<open>the body of the \<^verbatim>\<open>forEach\<close> over the timer keys: the timer after the tick, and
      what it pushes onto \<^verbatim>\<open>logsToAdd\<close>\<close>
  "tickTimer now kv =
     (let iid = fst kv; timer = snd kv in
      if \<not> isRunning timer then (kv, [])
      else if mode timer = Countdown then
        (let remaining = max 0 ((case remainingSeconds timer of None \<Rightarrow> 0 | Some r \<Rightarrow> r) - 1);
             elapsed = (case elapsedSeconds timer of None \<Rightarrow> 0 | Some e \<Rightarrow> e) + 1;
             timer1 = timer\<lparr>remainingSeconds := Some remaining, elapsedSeconds := Some elapsed\<rparr>
         in if remaining = 0 then
              ((iid, timer1\<lparr>isRunning := False, startRemaining := None\<rparr>),
               if elapsed > 0
               then [buildLogEntryFromFields now iid (itemText timer1) (timer_tab timer1) elapsed]
               else [])
            else ((iid, timer1), []))
      else ((iid, timer\<lparr>seconds := seconds timer + 1\<rparr>), []))"

text \<open>
  One run of the interval callback.  The callback hands React the state updater of the
  timers and, right after \<^verbatim>\<open>setTimers\<close> returns, tests \<^verbatim>\<open>logsToAdd.length\<close>; the only
  \<^verbatim>\<open>push\<close> onto \<^verbatim>\<open>logsToAdd\<close> is inside the updater.  Whether React runs the updater
  inside the call of \<^verbatim>\<open>setTimers\<close> (a legacy root flushes at once) or later, at the next
  render (\<^verbatim>\<open>createRoot\<close> defers it), is not fixed by the component: it is the argument
  \<open>inCall\<close>.  The updater runs once either way, with the clock value \<open>now\<close>; when it
  runs later, the array is still empty at the test and \<^verbatim>\<open>setLogs\<close> is not called.
\<close>

definition tick :: "bool \<Rightarrow> int \<Rightarrow> app \<Rightarrow> app" where
  "tick inCall now s =
     (let nowSec = now div 1000 in
      if nowSec = lastTickRef s then s
      else
        (let results = map (tickTimer now) (timers s);
             logsToAdd = (if inCall then concat (map snd results) else [])
         in s\<lparr>lastTickRef := nowSec,
              timers := map fst results,
              logs := (if logsToAdd \<noteq> [] then logs s @ logsToAdd else logs s)\<rparr>))"

definition pauseResumeTimer :: "int \<Rightarrow> string \<Rightarrow> app \<Rightarrow> app" where
  "pauseResumeTimer now iid s =
     (if \<not> isTaskTab s then s
      else case map_of (timers s) iid of
        None \<Rightarrow> s
      | Some current \<Rightarrow>
          if isRunning current then
            s\<lparr>timers := AList.update iid
                 (current\<lparr>isRunning := False, startSeconds := None, startRemaining := None\<rparr>)
                 (timers s)\<rparr>
          else
            (let fromTarget =
                   (if mode current = Countdown
                    then map_option (\<lambda>target. max 0 (ceil_div1000 (target - now))) (targetTimeMs current)
                    else None)
             in s\<lparr>timers := AList.update iid
                  (current\<lparr>isRunning := (case fromTarget of Some r \<Rightarrow> r > 0 | None \<Rightarrow> True),
                           startSeconds := (if mode current = Stopwatch then Some (seconds current) else None),
                           startRemaining := (if mode current = Countdown then remainingSeconds current else None),
                           remainingSeconds := (case fromTarget of Some r \<Rightarrow> Some r
                                                | None \<Rightarrow> remainingSeconds current)\<rparr>)
                  (timers s)\<rparr>))"

definition clampMinutes :: "int \<Rightarrow> int" where
  "clampMinutes v = min (24 * 60) (max 1 v)"

definition closeTimerPopup :: "app \<Rightarrow> app" where
  "closeTimerPopup s = s\<lparr>timerPopupItemId := None\<rparr>"

definition applyTimer :: "int \<Rightarrow> int \<Rightarrow> app \<Rightarrow> app" where
  \<comment> \<open>\<open>tz\<close> is the local offset in milliseconds; \<^verbatim>\<open>setHours\<close> and \<^verbatim>\<open>setDate\<close> act on
      local time\<close>
  "applyTimer tz now s =
     (case tab s of
        Log \<Rightarrow> s
      | Task c \<Rightarrow>
        (case timerPopupItemId s of
           None \<Rightarrow> s
         | Some pid \<Rightarrow>
           if pid = [] then s
           else case findItem pid (tabItems c (items s)) of
             None \<Rightarrow> s
           | Some item \<Rightarrow>
             if completed item then s
             else if timerPopupMode s = DurationMode then
               (let durationSeconds = clampMinutes (timerPopupMinutes s) * 60
                in closeTimerPopup (s\<lparr>timers := AList.update (item_id item)
                     \<lparr>mode = Countdown, seconds = 0,
                      remainingSeconds = Some durationSeconds,
                      totalSeconds = Some durationSeconds,
                      elapsedSeconds = Some 0,
                      targetTimeMs = None,
                      isRunning = True,
                      startSeconds = None,
                      startRemaining = Some durationSeconds,
                      itemText = item_text item,
                      timer_tab = c\<rparr> (timers s)\<rparr>))
             else if timerPopupMode s = TargetMode then
               (let hour = (case parseInt (timerPopupHour s) of None \<Rightarrow> 12
                            | Some rawHour \<Rightarrow> min 12 (max 1 rawHour));
                    minute = (case parseInt (timerPopupMinute s) of None \<Rightarrow> 0
                              | Some rawMinute \<Rightarrow> min 59 (max 0 rawMinute));
                    hour24 = (if timerPopupPeriod s = PM then hour mod 12 + 12 else hour mod 12);
                    target0 = ((now + tz) div msPerDay) * msPerDay
                              + hour24 * 3600000 + minute * 60000 - tz;
                    target = (if target0 \<le> now then target0 + msPerDay else target0);
                    durationSeconds = max 60 (round_div1000 (target - now))
                in closeTimerPopup (s\<lparr>timers := AList.update (item_id item)
                     \<lparr>mode = Countdown, seconds = 0,
                      remainingSeconds = Some durationSeconds,
                      totalSeconds = Some durationSeconds,
                      elapsedSeconds = Some 0,
                      targetTimeMs = Some target,
                      isRunning = True,
                      startSeconds = None,
                      startRemaining = Some durationSeconds,
                      itemText = item_text item,
                      timer_tab = c\<rparr> (timers s)\<rparr>))
             else
               closeTimerPopup (s\<lparr>timers := AList.update (item_id item)
                     \<lparr>mode = Stopwatch, seconds = 0,
                      remainingSeconds = None,
                      totalSeconds = None,
                      elapsedSeconds = None,
                      targetTimeMs = None,
                      isRunning = True,
                      startSeconds = Some 0,
                      startRemaining = None,
                      itemText = item_text item,
                      timer_tab = c\<rparr> (timers s)\<rparr>)))"

section \<open>Task store: completion and ordering\<close>

definition toggleItem :: "string \<Rightarrow> int option \<Rightarrow> Item \<Rightarrow> Item" where
  \<comment> \<open>the function mapped over the list in \<^verbatim>\<open>completeTask\<close>\<close>
  "toggleItem iid timerSeconds item =
     (if item_id item = iid
      then item\<lparr>completed := \<not> completed item,
                item_elapsedSeconds := (case timerSeconds of Some v \<Rightarrow> Some v
                                        | None \<Rightarrow> item_elapsedSeconds item)\<rparr>
      else item)"

definition completeList :: "string \<Rightarrow> int option \<Rightarrow> Item list \<Rightarrow> Item list" where
  \<comment> \<open>the list that \<^verbatim>\<open>completeTask\<close> stores: \<^verbatim>\<open>[...incomplete, ...completed]\<close>\<close>
  "completeList iid timerSeconds l =
     (let updatedList = map (toggleItem iid timerSeconds) l;
          toggledItem = findItem iid updatedList;
          rest = filter (\<lambda>entry. item_id entry \<noteq> iid) updatedList;
          incomplete = filter (\<lambda>entry. \<not> completed entry) rest;
          completedL = filter completed rest
      in case toggledItem of
           None \<Rightarrow> incomplete @ completedL
         | Some t \<Rightarrow> if completed t then incomplete @ (completedL @ [t])
                     else (incomplete @ [t]) @ completedL)"

definition completeTask :: "int \<Rightarrow> string \<Rightarrow> app \<Rightarrow> app" where
  "completeTask now iid s =
     (case tab s of
        Log \<Rightarrow> s
      | Task c \<Rightarrow>
        (let timer = map_of (timers s) iid;
             item = findItem iid (tabItems c (items s));
             entryTab = (case timer of Some t \<Rightarrow> timer_tab t | None \<Rightarrow> c);
             s1 = (case item of
                     None \<Rightarrow> s
                   | Some it \<Rightarrow>
                       if \<not> completed it then
                         (case getTimerDuration timer of
                            Some d \<Rightarrow> if d \<noteq> 0 \<and> d > 0
                                      then appendLogEntry now (buildLogEntry now it d entryTab) s
                                      else appendLogEntry now (buildLogEntry now it 0 entryTab) s
                          | None \<Rightarrow> appendLogEntry now (buildLogEntry now it 0 entryTab) s)
                       else s);
             timerSeconds = (case timer of
                               None \<Rightarrow> None
                             | Some t \<Rightarrow> if mode t = Countdown then elapsedSeconds t
                                         else Some (seconds t))
         in s1\<lparr>items := setTabItems c (completeList iid timerSeconds (tabItems c (items s))) (items s),
               timers := AList.delete iid (timers s1)\<rparr>))"

definition toggleComplete :: "int \<Rightarrow> string \<Rightarrow> app \<Rightarrow> app" where
  "toggleComplete now iid s =
     (case tab s of
        Log \<Rightarrow> s
      | Task c \<Rightarrow>
        (case findItem iid (tabItems c (items s)) of
           None \<Rightarrow> s
         | Some item \<Rightarrow> if completed item then completeTask now iid s else completeTask now iid s))"

fun findIndex :: "('a \<Rightarrow> bool) \<Rightarrow> 'a list \<Rightarrow> nat option" where
  \<comment> \<open>\<^verbatim>\<open>findIndex\<close>; \<open>None\<close> is the result -1\<close>
  "findIndex P [] = None"
| "findIndex P (x # xs) = (if P x then Some 0 else map_option Suc (findIndex P xs))"

definition reorderList :: "string \<Rightarrow> string \<Rightarrow> Item list \<Rightarrow> Item list" where
  \<comment> \<open>the updater of \<^verbatim>\<open>reorderItems\<close> on the list of the active category;
      returning \<open>l\<close> is \<^verbatim>\<open>return prev\<close>\<close>
  "reorderList sourceId targetId l =
     (case findItem sourceId l of
        None \<Rightarrow> l
      | Some source \<Rightarrow>
          if completed source then l
          else
            (let target = findItem targetId l;
                 incomplete = filter (\<lambda>item. \<not> completed item \<and> item_id item \<noteq> sourceId) l;
                 completedL = filter completed l
             in if (case target of None \<Rightarrow> True | Some t \<Rightarrow> completed t)
                then (incomplete @ [source]) @ completedL
                else case findIndex (\<lambda>item. item_id item = targetId) incomplete of
                       None \<Rightarrow> l
                     | Some toIndex \<Rightarrow>
                         (take toIndex incomplete @ [source] @ drop toIndex incomplete) @ completedL))"

definition reorderItems :: "category \<Rightarrow> string \<Rightarrow> string \<Rightarrow> app \<Rightarrow> app" where
  "reorderItems activeTab sourceId targetId s =
     (if sourceId = targetId then s
      else s\<lparr>items := setTabItems activeTab
                (reorderList sourceId targetId (tabItems activeTab (items s))) (items s)\<rparr>)"


section \<open>Recurrence evaluator\<close>

text \<open>
  \<^verbatim>\<open>new Date(string)\<close> is the platform's date parser; the evaluator takes it as the
  parameter \<open>parseDate\<close>.  A NaN is \<open>None\<close>; \<^verbatim>\<open>toISOString\<close> of an Invalid Date raises
  a RangeError, the only exception the evaluator can raise.
\<close>

datatype error = RangeError

definition getDateOnly :: "int \<Rightarrow> jsdate \<Rightarrow> jsdate" where
  "getDateOnly tz d =
     (case d of
        None \<Rightarrow> None
      | Some ms \<Rightarrow> newDateYMD tz (getFullYear tz ms) (getMonth tz ms) (getDate tz ms))"

definition toISODate :: "jsdate \<Rightarrow> error + string" where
  "toISODate d = (case d of None \<Rightarrow> Inl RangeError | Some ms \<Rightarrow> Inr (take 10 (toISOString_ms ms)))"

definition truthy :: "string option \<Rightarrow> string option" where
  \<comment> \<open>an optional string used as a condition: absent and empty both count as false\<close>
  "truthy x = (case x of None \<Rightarrow> None | Some v \<Rightarrow> if v = [] then None else Some v)"

definition getAnchorDate :: "int \<Rightarrow> (string \<Rightarrow> jsdate) \<Rightarrow> int \<Rightarrow> Item \<Rightarrow> jsdate" where
  "getAnchorDate tz parseDate now item =
     (let anchor = (case schedule item of None \<Rightarrow> None | Some sch \<Rightarrow> anchorDate sch) in
      case truthy anchor of
        Some a \<Rightarrow> parseDate a
      | None \<Rightarrow> (case parseDate (createdDate item) of
                   Some parsed \<Rightarrow> getDateOnly tz (Some parsed)
                 | None \<Rightarrow> getDateOnly tz (Some now)))"

definition isItemScheduledForDate ::
  "int \<Rightarrow> (string \<Rightarrow> jsdate) \<Rightarrow> int \<Rightarrow> Item \<Rightarrow> jsdate \<Rightarrow> error + bool" where
  "isItemScheduledForDate tz parseDate now item dt =
     (case schedule item of
        None \<Rightarrow> Inr True
      | Some sch \<Rightarrow>
        (let today = getDateOnly tz dt;
             anchor = getDateOnly tz (getAnchorDate tz parseDate now item);
             diffDays = (case today of
                           None \<Rightarrow> None
                         | Some t \<Rightarrow> map_option (\<lambda>a. (t - a) div (1000 * 60 * 60 * 24)) anchor);
             weekday = map_option (getDay tz) today;
             days = (case daysOfWeek sch of
                       Some ds \<Rightarrow> map Some ds
                     | None \<Rightarrow> [map_option (getDay tz) anchor]);
             weeks = map_option (\<lambda>d. d div 7) diffDays
         in if sched_type sch = ''daily'' then Inr True
            else if sched_type sch = ''weekdays'' then
              Inr (case weekday of None \<Rightarrow> False | Some w \<Rightarrow> w \<ge> 1 \<and> w \<le> 5)
            else if sched_type sch = ''weekends'' then
              Inr (case weekday of None \<Rightarrow> False | Some w \<Rightarrow> w = 0 \<or> w = 6)
            else if sched_type sch = ''custom-days'' then
              Inr (case daysOfWeek sch of
                     Some ds \<Rightarrow> weekday \<in> set (map Some ds)
                   | None \<Rightarrow> True)
            else if sched_type sch = ''every-other-day'' then
              Inr (case diffDays of None \<Rightarrow> False | Some d \<Rightarrow> js_rem d 2 = 0)
            else if sched_type sch = ''every-3-days'' then
              Inr (case diffDays of None \<Rightarrow> False | Some d \<Rightarrow> js_rem d 3 = 0)
            else if sched_type sch = ''weekly'' then
              Inr (case weeks of None \<Rightarrow> False | Some w \<Rightarrow> w \<ge> 0 \<and> weekday \<in> set days)
            else if sched_type sch = ''biweekly'' then
              Inr (case weeks of None \<Rightarrow> False
                   | Some w \<Rightarrow> w \<ge> 0 \<and> js_rem w 2 = 0 \<and> weekday \<in> set days)
            else if sched_type sch = ''monthly'' then
              (let targetDate = (case truthy (date sch) of Some d \<Rightarrow> parseDate d | None \<Rightarrow> anchor)
               in Inr (case today of
                         None \<Rightarrow> False
                       | Some t \<Rightarrow> (case targetDate of
                                      None \<Rightarrow> False
                                    | Some g \<Rightarrow> getDate tz t = getDate tz g)))
            else if sched_type sch = ''specific-date'' then
              (case truthy (date sch) of
                 Some d \<Rightarrow> (case toISODate today of
                              Inl e \<Rightarrow> Inl e
                            | Inr isoDay \<Rightarrow> Inr (d = isoDay))
               | None \<Rightarrow> Inr False)
            else Inr True))"

section \<open>Persisted state and the daily reset\<close>

text \<open>
  What \<^verbatim>\<open>JSON.parse\<close> of the stored text yields, as far as \<^verbatim>\<open>loadStoredState\<close> looks
  at it: a field that is absent, or not an array where an array is expected, is \<open>None\<close>.
  \<open>Absent\<close> is a missing or empty text, \<open>Malformed\<close> a text on which \<^verbatim>\<open>JSON.parse\<close>
  or the first property access raises.
\<close>

record RawItems =
  r_goals :: "Item list option"
  r_waste :: "Item list option"

record RawHistory =
  rh_goals :: "string list option"
  rh_waste :: "string list option"

record TaskHistory =
  hist_goals :: "string list"
  hist_waste :: "string list"

record StoredData =
  d_items :: "RawItems option"
  d_goals :: "Item list option"
  d_waste :: "Item list option"
  d_logs :: "LogEntry list option"
  d_taskHistory :: "RawHistory option"

datatype stored = Absent | Malformed | Parsed StoredData

record storage =
  goalsTrackerData :: stored
  lastResetDate :: "string option"

record Loaded =
  l_items :: ItemLists
  l_logs :: "LogEntry list"
  l_taskHistory :: TaskHistory

definition emptyState :: Loaded where
  "emptyState = \<lparr>l_items = \<lparr>goals = [], waste = []\<rparr>, l_logs = [],
                  l_taskHistory = \<lparr>hist_goals = [], hist_waste = []\<rparr>\<rparr>"

definition dedupe :: "'a list \<Rightarrow> 'a list" where
  \<comment> \<open>\<^verbatim>\<open>[...new Set(xs)]\<close>: the first occurrence of each element, in order\<close>
  "dedupe xs = rev (remdups (rev xs))"

definition derivedHistory :: "Item list \<Rightarrow> Item list \<Rightarrow> LogEntry list \<Rightarrow> TaskHistory" where
  "derivedHistory gs ws storedLogs =
     \<lparr>hist_goals = dedupe (map item_text gs
                      @ map entry_itemText (filter (\<lambda>entry. entry_tab entry = Goals) storedLogs)),
      hist_waste = dedupe (map item_text ws
                      @ map entry_itemText (filter (\<lambda>entry. entry_tab entry = Waste) storedLogs))\<rparr>"

definition loadStoredState :: "string \<Rightarrow> storage \<Rightarrow> Loaded \<times> storage" where
  \<comment> \<open>\<open>today\<close> is \<^verbatim>\<open>new Date().toDateString()\<close>; the result pairs the returned state with
      the storage after the call\<close>
  "loadStoredState today st =
     (case goalsTrackerData st of
        Absent \<Rightarrow> (emptyState, st\<lparr>lastResetDate := Some today\<rparr>)
      | Malformed \<Rightarrow> (emptyState, st)
      | Parsed data \<Rightarrow>
        (let storedItems = (case d_items data of
                              Some r \<Rightarrow> r
                            | None \<Rightarrow> \<lparr>r_goals = d_goals data, r_waste = d_waste data\<rparr>);
             storedLogs = (case d_logs data of Some l \<Rightarrow> l | None \<Rightarrow> [])
         in case r_goals storedItems of
              None \<Rightarrow> (emptyState, st)
            | Some gs \<Rightarrow>
              (case r_waste storedItems of
                 None \<Rightarrow> (emptyState, st)
               | Some ws \<Rightarrow>
                 (let taskHistory =
                        (case d_taskHistory data of
                           None \<Rightarrow> derivedHistory gs ws storedLogs
                         | Some h \<Rightarrow>
                             (case rh_goals h of
                                None \<Rightarrow> derivedHistory gs ws storedLogs
                              | Some hg \<Rightarrow>
                                  (case rh_waste h of
                                     None \<Rightarrow> derivedHistory gs ws storedLogs
                                   | Some hw \<Rightarrow> \<lparr>hist_goals = hg, hist_waste = hw\<rparr>)))
                  in if lastResetDate st \<noteq> Some today then
                       (\<lparr>l_items = \<lparr>goals = map (\<lambda>item. item\<lparr>completed := False\<rparr>) gs,
                                    waste = map (\<lambda>item. item\<lparr>completed := False\<rparr>) ws\<rparr>,
                         l_logs = storedLogs, l_taskHistory = taskHistory\<rparr>,
                        st\<lparr>lastResetDate := Some today\<rparr>)
                     else
                       (\<lparr>l_items = \<lparr>goals = gs, waste = ws\<rparr>,
                         l_logs = storedLogs, l_taskHistory = taskHistory\<rparr>, st)))))"

section \<open>Runs and example states\<close>

fun ticks :: "(bool \<times> int) list \<Rightarrow> app \<Rightarrow> app" where
  \<comment> \<open>successive runs of the interval callback: for each, whether its updater runs
      inside the call, and its clock value\<close>
  "ticks [] s = s"
| "ticks (r # rs) s = ticks rs (tick (fst r) (snd r) s)"

definition knownTypes :: "string list" where
  \<comment> \<open>the cases of the \<^verbatim>\<open>switch\<close> in \<^verbatim>\<open>isItemScheduledForDate\<close>\<close>
  "knownTypes = [''daily'', ''weekdays'', ''weekends'', ''custom-days'', ''every-other-day'',
                 ''every-3-days'', ''weekly'', ''biweekly'', ''monthly'', ''specific-date'']"

definition exItem :: "string \<Rightarrow> string \<Rightarrow> bool \<Rightarrow> Item" where
  "exItem i txt done =
     \<lparr>item_id = i, item_text = txt, completed = done, createdDate = ''Mon Nov 02 2026'',
      item_elapsedSeconds = None, link = None, schedule = None\<rparr>"

definition exSchedule :: "string \<Rightarrow> Schedule" where
  \<comment> \<open>a rule of the given type with no optional field set\<close>
  "exSchedule ty = \<lparr>sched_type = ty, daysOfWeek = None, date = None, anchorDate = None\<rparr>"

definition exParse :: "string \<Rightarrow> jsdate" where
  \<comment> \<open>a date parser that knows one date\<close>
  "exParse x = (if x = ''Mon Nov 02 2026'' \<or> x = ''2026-11-02'' then Some 1793577600000 else None)"

definition exApp :: "Item list \<Rightarrow> (string \<times> TimerState) list \<Rightarrow> app" where
  \<comment> \<open>the goals tab showing the given tasks and timers, nothing logged yet\<close>
  "exApp gs tms =
     \<lparr>tab = Task Goals, items = \<lparr>goals = gs, waste = []\<rparr>, timers = tms, logs = [],
      lastTickRef = 0, lastLogRef = Map.empty,
      timerPopupItemId = None, timerPopupMode = DurationMode, timerPopupMinutes = 30,
      timerPopupHour = ''12'', timerPopupMinute = ''00'', timerPopupPeriod = AM\<rparr>"

definition exCountdown :: "int \<Rightarrow> int \<Rightarrow> int option \<Rightarrow> bool \<Rightarrow> TimerState" where
  \<comment> \<open>a countdown with the given remaining and elapsed seconds\<close>
  "exCountdown r e target running =
     \<lparr>mode = Countdown, seconds = 0, remainingSeconds = Some r, totalSeconds = Some (r + e),
      elapsedSeconds = Some e, targetTimeMs = target, isRunning = running,
      startSeconds = None, startRemaining = None, itemText = ''read'', timer_tab = Goals\<rparr>"

definition exStopwatch :: "int \<Rightarrow> bool \<Rightarrow> TimerState" where
  "exStopwatch n running =
     \<lparr>mode = Stopwatch, seconds = n, remainingSeconds = None, totalSeconds = None,
      elapsedSeconds = None, targetTimeMs = None, isRunning = running,
      startSeconds = Some 0, startRemaining = None, itemText = ''walk'', timer_tab = Goals\<rparr>"

definition exBoth :: app where
  \<comment> \<open>an open task with a countdown and a completed task with a stopwatch\<close>
  "exBoth = exApp [exItem ''A'' ''read'' False, exItem ''B'' ''walk'' True]
                  [(''B'', exStopwatch 7 True), (''A'', exCountdown 120 0 None True)]"

definition exStorage :: "string option \<Rightarrow> storage" where
  \<comment> \<open>what the application saves, with the given date of the last reset\<close>
  "exStorage lastReset =
     \<lparr>goalsTrackerData = Parsed
        \<lparr>d_items = Some \<lparr>r_goals = Some [exItem ''A'' ''read'' False, exItem ''B'' ''walk'' True],
                          r_waste = Some [exItem ''C'' ''scroll'' True]\<rparr>,
         d_goals = None, d_waste = None,
         d_logs = Some [buildLogEntry 5000 (exItem ''B'' ''walk'' True) 0 Goals],
         d_taskHistory = Some \<lparr>rh_goals = Some [''walk'', ''read''], rh_waste = Some [''scroll'']\<rparr>\<rparr>,
      lastResetDate = lastReset\<rparr>"

fun incompleteFirst :: "Item list \<Rightarrow> bool" where
  \<comment> \<open>every incomplete item precedes every completed item\<close>
  "incompleteFirst [] = True"
| "incompleteFirst (x # xs) = (if completed x then list_all completed xs else incompleteFirst xs)"

definition exThree :: app where
  \<comment> \<open>a completed task with an open task behind it, as \<^verbatim>\<open>addItem\<close> leaves the list
      when a task is added after another was completed\<close>
  "exThree = exApp [exItem ''A'' ''read'' False, exItem ''B'' ''walk'' True,
                    exItem ''C'' ''write'' False] []"

definition exTargetPopup :: app where
  \<comment> \<open>the timer popup of task A set to the target time 12:02 AM\<close>
  "exTargetPopup = (exApp [exItem ''A'' ''read'' False] [])
     \<lparr>timerPopupItemId := Some ''A'', timerPopupMode := TargetMode,
      timerPopupHour := ''12'', timerPopupMinute := ''02'', timerPopupPeriod := AM\<rparr>"

definition exTenTicks :: "int list" where
  \<comment> \<open>ten ticks, one per second, after midnight of 2026-11-02 (UTC)\<close>
  "exTenTicks = [1793577601000, 1793577602000, 1793577603000, 1793577604000, 1793577605000,
                 1793577606000, 1793577607000, 1793577608000, 1793577609000, 1793577610000]"

fun freshSeconds :: "int \<Rightarrow> int list \<Rightarrow> bool" where
  \<comment> \<open>every clock value falls in another whole second than the one observed before it,
      starting from the second \<open>lastSec\<close> held by \<open>lastTickRef\<close>\<close>
  "freshSeconds lastSec [] = True"
| "freshSeconds lastSec (t # ts) = (t div 1000 \<noteq> lastSec \<and> freshSeconds (t div 1000) ts)"

definition logsFor :: "string \<Rightarrow> LogEntry list \<Rightarrow> LogEntry list" where
  \<comment> \<open>the entries of a task\<close>
  "logsFor iid l = filter (\<lambda>e. itemId e = iid) l"

definition exDurationPopup :: app where
  \<comment> \<open>the timer popup of task A set to a duration of five minutes, another task timed\<close>
  "exDurationPopup =
     (exApp [exItem ''A'' ''read'' False, exItem ''B'' ''walk'' False] [(''B'', exStopwatch 7 True)])
     \<lparr>timerPopupItemId := Some ''A'', timerPopupMode := DurationMode, timerPopupMinutes := 5\<rparr>"

definition exTicks300 :: "int list" where
  \<comment> \<open>300 ticks, one per second\<close>
  "exTicks300 = map (\<lambda>n. 1793577600000 + 1000 * int n) [1..<301]"

fun appendAll :: "(int \<times> LogEntry) list \<Rightarrow> app \<Rightarrow> app" where
  \<comment> \<open>successive requests to \<^verbatim>\<open>appendLogEntry\<close>, each with its clock value\<close>
  "appendAll [] s = s"
| "appendAll (r # rs) s = appendAll rs (appendLogEntry (fst r) (snd r) s)"

section \<open>Properties\<close>


subsection \<open>Log entries built from fields\<close>

lemma buildLogEntry_fields [simp]:
  "itemId (buildLogEntry now item d c) = item_id item"
  "durationSeconds (buildLogEntry now item d c) = d"
  "entry_id (buildLogEntry now item d c) = show_int now @ ''-'' @ item_id item"
  by (simp_all add: buildLogEntry_def Let_def)

lemma buildLogEntryFromFields_fields [simp]:
  "itemId (buildLogEntryFromFields now i txt c d) = i"
  "durationSeconds (buildLogEntryFromFields now i txt c d) = d"
  "entry_id (buildLogEntryFromFields now i txt c d) = show_int now @ ''-'' @ i"
  by (simp_all add: buildLogEntryFromFields_def Let_def)

subsection \<open>The tick guard\<close>

lemma tick_same_second:
  "t2 div 1000 = t1 div 1000 \<Longrightarrow> tick b2 t2 (tick b1 t1 s) = tick b1 t1 s"
  by (simp add: tick_def Let_def)

lemma ticks_same_second:
  "\<forall>r\<in>set rs. snd r div 1000 = t1 div 1000 \<Longrightarrow> ticks rs (tick b1 t1 s) = tick b1 t1 s"
  by (induction rs) (simp_all add: tick_same_second)

text \<open>
  Claim C4.  The tick handler is idempotent within one wall-clock second: when the
  callback runs at \<open>t1\<close> and then any number of further times at clock values of the same
  whole second, the state is the one the run at \<open>t1\<close> alone leaves, and every timer has
  had the tick body applied at most once (so at most one decrement of
  \<open>remainingSeconds\<close>, one increment of \<open>elapsedSeconds\<close> or \<open>seconds\<close>).  This holds
  whenever React runs the updaters.
\<close>

theorem tick_idempotent_within_second:
  assumes "\<forall>r\<in>set rs. snd r div 1000 = t1 div 1000"
  shows "ticks ((b1, t1) # rs) s = tick b1 t1 s
       \<and> (timers (ticks ((b1, t1) # rs) s) = timers s
          \<or> timers (ticks ((b1, t1) # rs) s) = map (\<lambda>kv. fst (tickTimer t1 kv)) (timers s))"
proof -
  have run: "ticks ((b1, t1) # rs) s = tick b1 t1 s"
    using assms by (simp add: ticks_same_second)
  have once: "timers (tick b1 t1 s) = timers s
            \<or> timers (tick b1 t1 s) = map (\<lambda>kv. fst (tickTimer t1 kv)) (timers s)"
    by (simp add: tick_def Let_def comp_def)
  from run once show ?thesis by simp
qed

theorem tick_idempotent_within_second_witness:
  "list_all (\<lambda>r. snd r div 1000 = (5000::int) div 1000) [(False, 5250), (True, 5500), (False, 5999)]
   \<and> ticks ((True, 5000) # [(False, 5250), (True, 5500), (False, 5999)])
        (exApp [exItem ''A'' ''read'' False] [(''A'', exCountdown 120 0 None True)])
     = tick True 5000 (exApp [exItem ''A'' ''read'' False] [(''A'', exCountdown 120 0 None True)])
   \<and> map (remainingSeconds \<circ> snd)
        (timers (ticks ((True, 5000) # [(False, 5250), (True, 5500), (False, 5999)])
           (exApp [exItem ''A'' ''read'' False] [(''A'', exCountdown 120 0 None True)])))
     = [Some 119]
   \<and> map (remainingSeconds \<circ> snd)
        (timers (ticks ((False, 5000) # [(False, 5250), (True, 5500), (False, 5999)])
           (exApp [exItem ''A'' ''read'' False] [(''A'', exCountdown 120 0 None True)])))
     = [Some 119]"
  using tick_idempotent_within_second [of "[(False, 5250), (True, 5500), (False, 5999)]" 5000 True
      "exApp [exItem ''A'' ''read'' False] [(''A'', exCountdown 120 0 None True)]"]
    tick_idempotent_within_second [of "[(False, 5250), (True, 5500), (False, 5999)]" 5000 False
      "exApp [exItem ''A'' ''read'' False] [(''A'', exCountdown 120 0 None True)]"]
  by (simp add: tick_def tickTimer_def exApp_def exCountdown_def Let_def)

subsection \<open>Daily and unscheduled tasks\<close>

text \<open>
  Claim C6.  For every task and every date (valid or not), whatever the time zone, the
  date parser and the clock: if the task has no schedule, or its schedule has type
  \<open>daily\<close>, the evaluator returns true.
\<close>

theorem due_when_daily_or_unscheduled:
  assumes "schedule item = None \<or> (\<exists>sch. schedule item = Some sch \<and> sched_type sch = ''daily'')"
  shows "isItemScheduledForDate tz parseDate now item dt = Inr True"
  using assms by (auto simp: isItemScheduledForDate_def Let_def)

theorem due_when_daily_or_unscheduled_witness:
  "schedule (exItem ''A'' ''read'' False) = None
   \<and> isItemScheduledForDate 0 exParse 0 (exItem ''A'' ''read'' False) (Some 1793577600000) = Inr True
   \<and> sched_type (exSchedule ''daily'') = ''daily''
   \<and> isItemScheduledForDate 0 exParse 0
        ((exItem ''B'' ''walk'' False)\<lparr>schedule := Some (exSchedule ''daily'')\<rparr>) None = Inr True"
  using due_when_daily_or_unscheduled [of "exItem ''A'' ''read'' False" 0 exParse 0 "Some 1793577600000"]
    due_when_daily_or_unscheduled
      [of "(exItem ''B'' ''walk'' False)\<lparr>schedule := Some (exSchedule ''daily'')\<rparr>" 0 exParse 0 None]
  by (simp add: exItem_def exSchedule_def)

subsection \<open>De-duplication of log requests\<close>

lemma lastLogRef_appendLogEntry_other:
  "itemId e \<noteq> i \<Longrightarrow> lastLogRef (appendLogEntry t e s) i = lastLogRef s i"
  by (simp add: appendLogEntry_def split: option.splits)

lemma logsFor_appendLogEntry_other:
  "itemId e \<noteq> i \<Longrightarrow> logsFor i (logs (appendLogEntry t e s)) = logsFor i (logs s)"
  by (simp add: appendLogEntry_def logsFor_def split: option.splits)

lemma appendAll_other:
  "\<forall>r\<in>set rs. itemId (snd r) \<noteq> i
   \<Longrightarrow> lastLogRef (appendAll rs s) i = lastLogRef s i
     \<and> logsFor i (logs (appendAll rs s)) = logsFor i (logs s)"
  by (induction rs arbitrary: s)
     (simp_all add: lastLogRef_appendLogEntry_other logsFor_appendLogEntry_other)

text \<open>
  Claim C3, as stated, fails: a request is compared with the last entry appended for
  its task only.  Requests for task A with durations 0, 5 and 0 arrive within 200 ms;
  the third has the task id and the duration of the first, appended 200 ms before, and
  is appended all the same, because the record by then holds the second.
\<close>

theorem append_older_duplicate_kept_counterexample:
  "(5200::int) - 5000 < 1500
   \<and> map (\<lambda>e. (itemId e, durationSeconds e))
       (logs (appendAll [(5000, buildLogEntry 5000 (exItem ''A'' ''read'' False) 0 Goals),
                         (5100, buildLogEntry 5100 (exItem ''A'' ''read'' False) 5 Goals),
                         (5200, buildLogEntry 5200 (exItem ''A'' ''read'' False) 0 Goals)]
                (exApp [exItem ''A'' ''read'' False] [])))
     = [(''A'', 0), (''A'', 5), (''A'', 0)]"
  by (simp add: appendLogEntry_def exApp_def exItem_def)

text \<open>
  Claim C3, amended.  When a request for entry \<open>e1\<close> at time \<open>t1\<close> was appended, and it
  is the last one appended for its task (whatever was requested for other tasks since),
  a request at \<open>t2\<close>, less than 1500 ms after \<open>t1\<close>, for the same task id and the same
  \<open>durationSeconds\<close> is dropped: it changes nothing at all (neither the log nor the
  builder's record of the last entry), so the two requests leave exactly the one entry
  \<open>e1\<close> for that task behind the log as it was.
\<close>

theorem append_duplicate_dropped:
  assumes "itemId e2 = itemId e1" and "durationSeconds e2 = durationSeconds e1"
    and "t2 - t1 < 1500"
    and "logs (appendLogEntry t1 e1 s) = logs s @ [e1]"
    and "\<forall>r\<in>set rs. itemId (snd r) \<noteq> itemId e1"
  shows "appendLogEntry t2 e2 (appendAll rs (appendLogEntry t1 e1 s))
           = appendAll rs (appendLogEntry t1 e1 s)
       \<and> logsFor (itemId e1) (logs (appendLogEntry t2 e2 (appendAll rs (appendLogEntry t1 e1 s))))
           = logsFor (itemId e1) (logs s) @ [e1]
       \<and> logs (appendLogEntry t2 e2 (appendLogEntry t1 e1 s)) = logs s @ [e1]"
proof -
  let ?s1 = "appendLogEntry t1 e1 s"
  have rec: "lastLogRef ?s1 (itemId e1) = Some \<lparr>time = t1, duration = durationSeconds e1\<rparr>"
    using assms(4) by (auto simp: appendLogEntry_def split: option.splits if_splits)
  note other = appendAll_other [OF assms(5), of ?s1]
  have "lastLogRef (appendAll rs ?s1) (itemId e2) = Some \<lparr>time = t1, duration = durationSeconds e1\<rparr>"
    using other rec assms(1) by simp
  then have dropped: "appendLogEntry t2 e2 (appendAll rs ?s1) = appendAll rs ?s1"
    using assms(2,3) by (simp add: appendLogEntry_def)
  have direct: "appendLogEntry t2 e2 ?s1 = ?s1"
    using rec assms(1,2,3) by (simp add: appendLogEntry_def)
  have "logsFor (itemId e1) (logs (appendAll rs ?s1)) = logsFor (itemId e1) (logs s) @ [e1]"
    using other assms(4) by (simp add: logsFor_def)
  with dropped direct assms(4) show ?thesis by simp
qed

theorem append_duplicate_dropped_witness:
  "itemId (buildLogEntry 6000 (exItem ''A'' ''read'' False) 0 Goals)
     = itemId (buildLogEntry 5000 (exItem ''A'' ''read'' False) 0 Goals)
   \<and> durationSeconds (buildLogEntry 6000 (exItem ''A'' ''read'' False) 0 Goals)
     = durationSeconds (buildLogEntry 5000 (exItem ''A'' ''read'' False) 0 Goals)
   \<and> (6000::int) - 5000 < 1500
   \<and> logs (appendLogEntry 5000 (buildLogEntry 5000 (exItem ''A'' ''read'' False) 0 Goals)
             (exApp [exItem ''A'' ''read'' False] []))
     = logs (exApp [exItem ''A'' ''read'' False] [])
       @ [buildLogEntry 5000 (exItem ''A'' ''read'' False) 0 Goals]
   \<and> list_all (\<lambda>r. itemId (snd r) \<noteq> ''A'')
        [(5500, buildLogEntry 5500 (exItem ''B'' ''walk'' False) 0 Goals)]
   \<and> logs (appendLogEntry 6000 (buildLogEntry 6000 (exItem ''A'' ''read'' False) 0 Goals)
        (appendAll [(5500, buildLogEntry 5500 (exItem ''B'' ''walk'' False) 0 Goals)]
          (appendLogEntry 5000 (buildLogEntry 5000 (exItem ''A'' ''read'' False) 0 Goals)
             (exApp [exItem ''A'' ''read'' False] []))))
     = [buildLogEntry 5000 (exItem ''A'' ''read'' False) 0 Goals,
        buildLogEntry 5500 (exItem ''B'' ''walk'' False) 0 Goals]
   \<and> logs (appendLogEntry 6000 (buildLogEntry 6000 (exItem ''A'' ''read'' False) 0 Goals)
        (appendLogEntry 5000 (buildLogEntry 5000 (exItem ''A'' ''read'' False) 0 Goals)
           (exApp [exItem ''A'' ''read'' False] [])))
     = [buildLogEntry 5000 (exItem ''A'' ''read'' False) 0 Goals]"
proof -
  let ?s = "exApp [exItem ''A'' ''read'' False] []"
  let ?e1 = "buildLogEntry 5000 (exItem ''A'' ''read'' False) 0 Goals"
  let ?e2 = "buildLogEntry 6000 (exItem ''A'' ''read'' False) 0 Goals"
  let ?rs = "[(5500, buildLogEntry 5500 (exItem ''B'' ''walk'' False) 0 Goals)]"
  have ids: "itemId ?e2 = itemId ?e1" and durs: "durationSeconds ?e2 = durationSeconds ?e1"
    and near: "(6000::int) - 5000 < 1500"
    by simp_all
  have appended: "logs (appendLogEntry 5000 ?e1 ?s) = logs ?s @ [?e1]"
    by (simp add: appendLogEntry_def exApp_def)
  have others: "\<forall>r\<in>set ?rs. itemId (snd r) \<noteq> itemId ?e1"
    by (simp add: exItem_def)
  have between: "appendAll ?rs (appendLogEntry 5000 ?e1 ?s)
      = appendLogEntry 5500 (buildLogEntry 5500 (exItem ''B'' ''walk'' False) 0 Goals)
          (appendLogEntry 5000 ?e1 ?s)"
    by simp
  have logs2: "logs (appendAll ?rs (appendLogEntry 5000 ?e1 ?s))
      = [?e1, buildLogEntry 5500 (exItem ''B'' ''walk'' False) 0 Goals]"
    unfolding between by (simp add: appendLogEntry_def exApp_def exItem_def)
  have empty: "logs ?s = []"
    by (simp add: exApp_def)
  from append_duplicate_dropped [OF ids durs near appended others]
  show ?thesis
    using appended empty logs2 by (simp add: exItem_def)
qed

subsection \<open>Completion clears the timer\<close>

text \<open>
  Claim C10.  For the id of a task of the active list, \<open>toggleComplete\<close> removes the
  timer of that id from the timers, whether the task was incomplete (it is being
  completed) or complete (it is being un-completed), and the timer of every other id
  is as before.
\<close>

theorem toggleComplete_clears_timer:
  assumes "tab s = Task c" and "findItem iid (tabItems c (items s)) = Some item"
  shows "timers (toggleComplete now iid s) = AList.delete iid (timers s)
       \<and> map_of (timers (toggleComplete now iid s)) iid = None
       \<and> (\<forall>j. j \<noteq> iid \<longrightarrow> map_of (timers (toggleComplete now iid s)) j = map_of (timers s) j)"
  using assms
  by (auto simp: toggleComplete_def completeTask_def Let_def appendLogEntry_def delete_conv
           split: option.splits)

theorem toggleComplete_clears_timer_witness:
  "tab exBoth = Task Goals
   \<and> findItem ''B'' (tabItems Goals (items exBoth)) = Some (exItem ''B'' ''walk'' True)
   \<and> findItem ''A'' (tabItems Goals (items exBoth)) = Some (exItem ''A'' ''read'' False)
   \<and> map_of (timers (toggleComplete 5000 ''B'' exBoth)) ''B'' = None
   \<and> ''A'' \<noteq> ''B''
   \<and> map_of (timers (toggleComplete 5000 ''B'' exBoth)) ''A'' = map_of (timers exBoth) ''A''
   \<and> map_of (timers (toggleComplete 5000 ''A'' exBoth)) ''A'' = None
   \<and> map_of (timers (toggleComplete 5000 ''A'' exBoth)) ''B'' = map_of (timers exBoth) ''B''"
  using toggleComplete_clears_timer [of exBoth Goals "''B''" "exItem ''B'' ''walk'' True" 5000]
    toggleComplete_clears_timer [of exBoth Goals "''A''" "exItem ''A'' ''read'' False" 5000]
  by (simp add: exBoth_def exApp_def exItem_def findItem_def tabItems_def)

subsection \<open>Rules with an unknown type or a missing field\<close>

text \<open>
  Claim C2, as stated, fails: a \<open>specific-date\<close> rule with no configured date is not due
  on any date (the evaluator answers false, it does not fail open).  Here on
  2026-11-02.
\<close>

theorem fail_closed_specific_date_counterexample:
  "isItemScheduledForDate 0 exParse 0
     ((exItem ''A'' ''read'' False)\<lparr>schedule := Some (exSchedule ''specific-date'')\<rparr>)
     (Some 1793577600000) = Inr False"
  by (simp add: isItemScheduledForDate_def exItem_def exSchedule_def truthy_def Let_def)

text \<open>
  Claim C2, amended.  A rule whose type is none of the ten known types is due on every
  date, and so is a \<open>custom-days\<close> rule with no \<open>daysOfWeek\<close> array: there the evaluator
  fails open.  A \<open>specific-date\<close> rule with no (or an empty) configured date is due on
  no date.
\<close>

theorem fail_open_unknown_or_custom_days:
  assumes "schedule item = Some sch"
  shows "(sched_type sch \<notin> set knownTypes
            \<longrightarrow> isItemScheduledForDate tz parseDate now item dt = Inr True)
       \<and> (sched_type sch = ''custom-days'' \<and> daysOfWeek sch = None
            \<longrightarrow> isItemScheduledForDate tz parseDate now item dt = Inr True)
       \<and> (sched_type sch = ''specific-date'' \<and> truthy (date sch) = None
            \<longrightarrow> isItemScheduledForDate tz parseDate now item dt = Inr False)"
  using assms by (simp add: isItemScheduledForDate_def knownTypes_def Let_def)

theorem fail_open_unknown_or_custom_days_witness:
  "isItemScheduledForDate 0 exParse 0
     ((exItem ''A'' ''read'' False)\<lparr>schedule := Some (exSchedule ''yearly'')\<rparr>)
     (Some 1793577600000) = Inr True
   \<and> isItemScheduledForDate 0 exParse 0
     ((exItem ''A'' ''read'' False)\<lparr>schedule := Some (exSchedule ''custom-days'')\<rparr>)
     (Some 1793577600000) = Inr True
   \<and> isItemScheduledForDate 0 exParse 0
     ((exItem ''A'' ''read'' False)\<lparr>schedule := Some (exSchedule ''specific-date'')\<rparr>)
     None = Inr False"
  using fail_open_unknown_or_custom_days
      [of "(exItem ''A'' ''read'' False)\<lparr>schedule := Some (exSchedule ''yearly'')\<rparr>"
          "exSchedule ''yearly''" 0 exParse 0 "Some 1793577600000"]
    fail_open_unknown_or_custom_days
      [of "(exItem ''A'' ''read'' False)\<lparr>schedule := Some (exSchedule ''custom-days'')\<rparr>"
          "exSchedule ''custom-days''" 0 exParse 0 "Some 1793577600000"]
    fail_open_unknown_or_custom_days
      [of "(exItem ''A'' ''read'' False)\<lparr>schedule := Some (exSchedule ''specific-date'')\<rparr>"
          "exSchedule ''specific-date''" 0 exParse 0 None]
  by (simp add: exItem_def exSchedule_def knownTypes_def truthy_def)

subsection \<open>The daily reset at load time\<close>

text \<open>
  Claim C7.  For a stored state (items, logs and task history as the application saves
  them): when the stored \<open>lastResetDate\<close> differs from today, \<open>loadStoredState\<close> returns
  every task of both lists with \<open>completed\<close> false and otherwise as stored, advances
  the stored date to today, and returns the logs and the task history as stored; when
  the dates agree, items, logs and history are returned as stored and the storage is
  left alone.
\<close>

theorem load_resets_on_new_day:
  assumes "goalsTrackerData st = Parsed data"
    and "d_items data = Some \<lparr>r_goals = Some gs, r_waste = Some ws\<rparr>"
    and "d_logs data = Some lg"
    and "d_taskHistory data = Some \<lparr>rh_goals = Some hg, rh_waste = Some hw\<rparr>"
  shows "(lastResetDate st \<noteq> Some today \<longrightarrow>
            loadStoredState today st =
              (\<lparr>l_items = \<lparr>goals = map (\<lambda>item. item\<lparr>completed := False\<rparr>) gs,
                           waste = map (\<lambda>item. item\<lparr>completed := False\<rparr>) ws\<rparr>,
                l_logs = lg, l_taskHistory = \<lparr>hist_goals = hg, hist_waste = hw\<rparr>\<rparr>,
               st\<lparr>lastResetDate := Some today\<rparr>)
            \<and> list_all (\<lambda>item. \<not> completed item) (goals (l_items (fst (loadStoredState today st))))
            \<and> list_all (\<lambda>item. \<not> completed item) (waste (l_items (fst (loadStoredState today st)))))
       \<and> (lastResetDate st = Some today \<longrightarrow>
            loadStoredState today st =
              (\<lparr>l_items = \<lparr>goals = gs, waste = ws\<rparr>,
                l_logs = lg, l_taskHistory = \<lparr>hist_goals = hg, hist_waste = hw\<rparr>\<rparr>, st))"
  using assms by (simp add: loadStoredState_def Let_def list_all_iff)

theorem load_resets_on_new_day_witness:
  "lastResetDate (exStorage (Some ''Sun Nov 01 2026'')) \<noteq> Some ''Mon Nov 02 2026''
   \<and> map completed (goals (l_items (fst (loadStoredState ''Mon Nov 02 2026''
         (exStorage (Some ''Sun Nov 01 2026'')))))) = [False, False]
   \<and> map completed (waste (l_items (fst (loadStoredState ''Mon Nov 02 2026''
         (exStorage (Some ''Sun Nov 01 2026'')))))) = [False]
   \<and> l_logs (fst (loadStoredState ''Mon Nov 02 2026'' (exStorage (Some ''Sun Nov 01 2026''))))
       = [buildLogEntry 5000 (exItem ''B'' ''walk'' True) 0 Goals]
   \<and> lastResetDate (snd (loadStoredState ''Mon Nov 02 2026'' (exStorage (Some ''Sun Nov 01 2026''))))
       = Some ''Mon Nov 02 2026''
   \<and> lastResetDate (exStorage (Some ''Mon Nov 02 2026'')) = Some ''Mon Nov 02 2026''
   \<and> map completed (goals (l_items (fst (loadStoredState ''Mon Nov 02 2026''
         (exStorage (Some ''Mon Nov 02 2026'')))))) = [False, True]
   \<and> snd (loadStoredState ''Mon Nov 02 2026'' (exStorage (Some ''Mon Nov 02 2026'')))
       = exStorage (Some ''Mon Nov 02 2026'')"
  using load_resets_on_new_day
      [of "exStorage (Some ''Sun Nov 01 2026'')" _
          "[exItem ''A'' ''read'' False, exItem ''B'' ''walk'' True]" "[exItem ''C'' ''scroll'' True]"
          "[buildLogEntry 5000 (exItem ''B'' ''walk'' True) 0 Goals]"
          "[''walk'', ''read'']" "[''scroll'']" "''Mon Nov 02 2026''"]
    load_resets_on_new_day
      [of "exStorage (Some ''Mon Nov 02 2026'')" _
          "[exItem ''A'' ''read'' False, exItem ''B'' ''walk'' True]" "[exItem ''C'' ''scroll'' True]"
          "[buildLogEntry 5000 (exItem ''B'' ''walk'' True) 0 Goals]"
          "[''walk'', ''read'']" "[''scroll'']" "''Mon Nov 02 2026''"]
  by (simp add: exStorage_def exItem_def)

subsection \<open>Ordering of a category list\<close>

lemma incompleteFirst_append:
  "list_all (\<lambda>i. \<not> completed i) xs \<Longrightarrow> list_all completed ys \<Longrightarrow> incompleteFirst (xs @ ys)"
  by (induction xs) (auto intro: list.exhaust [of ys])

lemma toggleItem_id [simp]: "item_id (toggleItem iid ts it) = item_id it"
  by (simp add: toggleItem_def)

lemma toggleItem_completed:
  "item_id it = iid \<Longrightarrow> completed (toggleItem iid ts it) = (\<not> completed it)"
  by (simp add: toggleItem_def)

lemma findItem_map_toggle:
  "findItem iid (map (toggleItem iid ts) l) = map_option (toggleItem iid ts) (findItem iid l)"
  by (induction l) (simp_all add: findItem_def)

lemma filter_rest_toggle:
  "filter (\<lambda>e. item_id e \<noteq> iid) (map (toggleItem iid ts) l) = filter (\<lambda>e. item_id e \<noteq> iid) l"
  by (induction l) (simp_all add: toggleItem_def)

lemma findItem_Some_id: "findItem iid l = Some it \<Longrightarrow> item_id it = iid"
  by (induction l) (auto simp: findItem_def split: if_splits)

lemma completeList_shape:
  "completeList iid ts l =
     (case findItem iid l of
        None \<Rightarrow> filter (\<lambda>e. \<not> completed e) (filter (\<lambda>e. item_id e \<noteq> iid) l)
                @ filter completed (filter (\<lambda>e. item_id e \<noteq> iid) l)
      | Some it \<Rightarrow>
          if completed it
          then filter (\<lambda>e. \<not> completed e) (filter (\<lambda>e. item_id e \<noteq> iid) l)
               @ [toggleItem iid ts it] @ filter completed (filter (\<lambda>e. item_id e \<noteq> iid) l)
          else filter (\<lambda>e. \<not> completed e) (filter (\<lambda>e. item_id e \<noteq> iid) l)
               @ filter completed (filter (\<lambda>e. item_id e \<noteq> iid) l) @ [toggleItem iid ts it])"
  by (auto simp: completeList_def Let_def findItem_map_toggle filter_rest_toggle
        toggleItem_completed dest: findItem_Some_id split: option.splits)

lemma incompleteFirst_completeList: "incompleteFirst (completeList iid ts l)"
proof (cases "findItem iid l")
  case None
  then show ?thesis
    by (simp add: completeList_shape incompleteFirst_append list_all_iff)
next
  case (Some it)
  then have i: "item_id it = iid" by (rule findItem_Some_id)
  show ?thesis
  proof (cases "completed it")
    case True
    have "incompleteFirst ((filter (\<lambda>e. \<not> completed e) (filter (\<lambda>e. item_id e \<noteq> iid) l)
               @ [toggleItem iid ts it]) @ filter completed (filter (\<lambda>e. item_id e \<noteq> iid) l))"
      using True i by (intro incompleteFirst_append) (simp_all add: list_all_iff toggleItem_completed)
    with Some True show ?thesis by (simp add: completeList_shape)
  next
    case False
    have "incompleteFirst (filter (\<lambda>e. \<not> completed e) (filter (\<lambda>e. item_id e \<noteq> iid) l)
               @ (filter completed (filter (\<lambda>e. item_id e \<noteq> iid) l) @ [toggleItem iid ts it]))"
      using False i by (intro incompleteFirst_append) (simp_all add: list_all_iff toggleItem_completed)
    with Some False show ?thesis by (simp add: completeList_shape)
  qed
qed


lemma findIndex_None: "findIndex P xs = None \<longleftrightarrow> (\<forall>x\<in>set xs. \<not> P x)"
  by (induction xs) auto

lemma findItem_Some_mem: "findItem iid l = Some it \<Longrightarrow> it \<in> set l"
  by (induction l) (auto simp: findItem_def split: if_splits)

lemma incompleteFirst_reorderList:
  assumes "findItem sourceId l = Some src" and "\<not> completed src" and "sourceId \<noteq> targetId"
  shows "incompleteFirst (reorderList sourceId targetId l)"
proof -
  let ?inc = "filter (\<lambda>item. \<not> completed item \<and> item_id item \<noteq> sourceId) l"
  let ?comp = "filter completed l"
  have a: "incompleteFirst ((?inc @ [src]) @ ?comp)"
    using assms by (intro incompleteFirst_append) (simp_all add: list_all_iff)
  have b: "incompleteFirst ((take k ?inc @ [src] @ drop k ?inc) @ ?comp)" for k
    using assms
    by (intro incompleteFirst_append) (auto simp: list_all_iff dest: in_set_takeD in_set_dropD)
  have c: "findIndex (\<lambda>item. item_id item = targetId) ?inc \<noteq> None"
    if "findItem targetId l = Some t" and "\<not> completed t" for t
  proof -
    from that have "t \<in> set ?inc"
      using assms(3) findItem_Some_mem [of targetId l t] findItem_Some_id [of targetId l t] by auto
    moreover have "item_id t = targetId" using that(1) by (rule findItem_Some_id)
    ultimately show ?thesis by (auto simp: findIndex_None)
  qed
  show ?thesis
    using assms(1,2) a b c by (auto simp: reorderList_def Let_def split: option.splits)
qed

lemma reorderList_unchanged:
  "findItem sourceId l = None \<or> (\<exists>src. findItem sourceId l = Some src \<and> completed src)
   \<Longrightarrow> reorderList sourceId targetId l = l"
  by (auto simp: reorderList_def)

lemma setTabItems_same [simp]: "setTabItems c (tabItems c its) its = its"
  by (cases c) (simp_all add: setTabItems_def tabItems_def)

lemma tabItems_setTabItems [simp]: "tabItems c (setTabItems c l its) = l"
  by (cases c) (simp_all add: setTabItems_def tabItems_def)

lemma items_appendLogEntry [simp]: "items (appendLogEntry now e s) = items s"
  by (simp add: appendLogEntry_def split: option.splits)

lemma timers_appendLogEntry [simp]: "timers (appendLogEntry now e s) = timers s"
  by (simp add: appendLogEntry_def split: option.splits)

lemma tab_appendLogEntry [simp]: "tab (appendLogEntry now e s) = tab s"
  by (simp add: appendLogEntry_def split: option.splits)

lemma completeTask_items:
  "tab s = Task c \<Longrightarrow> \<exists>ts. tabItems c (items (completeTask now iid s))
      = completeList iid ts (tabItems c (items s))"
  by (auto simp: completeTask_def Let_def split: option.splits)

text \<open>
  Claim C9, as stated, fails for \<open>reorderItems\<close>: dragging a completed item (or dropping
  an item on itself, or dragging an unknown id) returns the list as it was, and a list
  need not be partitioned: a new task is appended behind the completed ones.
\<close>

theorem reorder_noop_unpartitioned_counterexample:
  "\<not> incompleteFirst (tabItems Goals (items
        (reorderItems Goals ''B'' ''C'' exThree)))"
  by (simp add: reorderItems_def reorderList_def findItem_def tabItems_def setTabItems_def
        exThree_def exApp_def exItem_def)

text \<open>
  Claim C9, amended.  \<open>completeTask\<close> always stores a list in which every incomplete
  item precedes every completed one: a newly completed item is last, an un-completed
  item follows the other incomplete items and precedes all completed ones.
  \<open>reorderItems\<close> stores such a list whenever it moves an item, that is when the source
  differs from the target, exists and is incomplete; in every other case it returns the
  state unchanged.
\<close>

theorem completion_and_reorder_partition:
  "(tab s = Task c \<longrightarrow>
      incompleteFirst (tabItems c (items (completeTask now iid s)))
      \<and> (\<forall>it. findItem iid (tabItems c (items s)) = Some it \<longrightarrow>
           (\<exists>t. item_id t = iid \<and> completed t = (\<not> completed it)
              \<and> tabItems c (items (completeTask now iid s)) =
                  (if completed it
                   then filter (\<lambda>e. \<not> completed e) (filter (\<lambda>e. item_id e \<noteq> iid) (tabItems c (items s)))
                        @ [t] @ filter completed (filter (\<lambda>e. item_id e \<noteq> iid) (tabItems c (items s)))
                   else filter (\<lambda>e. \<not> completed e) (filter (\<lambda>e. item_id e \<noteq> iid) (tabItems c (items s)))
                        @ filter completed (filter (\<lambda>e. item_id e \<noteq> iid) (tabItems c (items s))) @ [t]))))
   \<and> (sourceId \<noteq> targetId \<and> findItem sourceId (tabItems a (items s)) = Some src \<and> \<not> completed src \<longrightarrow>
        incompleteFirst (tabItems a (items (reorderItems a sourceId targetId s))))
   \<and> (sourceId = targetId \<or> findItem sourceId (tabItems a (items s)) = None
        \<or> (\<exists>src'. findItem sourceId (tabItems a (items s)) = Some src' \<and> completed src') \<longrightarrow>
        reorderItems a sourceId targetId s = s)"
proof (intro conjI impI allI)
  assume t: "tab s = Task c"
  from completeTask_items [OF t, of now iid]
  obtain ts where ts: "tabItems c (items (completeTask now iid s))
      = completeList iid ts (tabItems c (items s))" by blast
  then show "incompleteFirst (tabItems c (items (completeTask now iid s)))"
    by (simp add: incompleteFirst_completeList)
  fix it assume f: "findItem iid (tabItems c (items s)) = Some it"
  then have i: "item_id it = iid" by (rule findItem_Some_id)
  show "\<exists>t. item_id t = iid \<and> completed t = (\<not> completed it)
              \<and> tabItems c (items (completeTask now iid s)) =
                  (if completed it
                   then filter (\<lambda>e. \<not> completed e) (filter (\<lambda>e. item_id e \<noteq> iid) (tabItems c (items s)))
                        @ [t] @ filter completed (filter (\<lambda>e. item_id e \<noteq> iid) (tabItems c (items s)))
                   else filter (\<lambda>e. \<not> completed e) (filter (\<lambda>e. item_id e \<noteq> iid) (tabItems c (items s)))
                        @ filter completed (filter (\<lambda>e. item_id e \<noteq> iid) (tabItems c (items s))) @ [t])"
    using f i ts
    by (intro exI [of _ "toggleItem iid ts it"]) (simp add: completeList_shape toggleItem_completed)
next
  assume "sourceId \<noteq> targetId \<and> findItem sourceId (tabItems a (items s)) = Some src \<and> \<not> completed src"
  then show "incompleteFirst (tabItems a (items (reorderItems a sourceId targetId s)))"
    by (simp add: reorderItems_def incompleteFirst_reorderList)
next
  assume "sourceId = targetId \<or> findItem sourceId (tabItems a (items s)) = None
        \<or> (\<exists>src'. findItem sourceId (tabItems a (items s)) = Some src' \<and> completed src')"
  then show "reorderItems a sourceId targetId s = s"
    by (auto simp: reorderItems_def reorderList_unchanged)
qed

theorem completion_and_reorder_partition_witness:
  "tab exBoth = Task Goals
   \<and> incompleteFirst (tabItems Goals (items (completeTask 5000 ''A'' exBoth)))
   \<and> map item_id (tabItems Goals (items (completeTask 5000 ''A'' exBoth))) = [''B'', ''A'']
   \<and> map item_id (tabItems Goals (items (completeTask 5000 ''B'' exBoth))) = [''A'', ''B'']
   \<and> map completed (tabItems Goals (items (completeTask 5000 ''B'' exBoth))) = [False, False]
   \<and> ''C'' \<noteq> ''A''
   \<and> findItem ''C'' (tabItems Goals (items exThree)) = Some (exItem ''C'' ''write'' False)
   \<and> incompleteFirst (tabItems Goals (items (reorderItems Goals ''C'' ''A'' exThree)))
   \<and> map item_id (tabItems Goals (items (reorderItems Goals ''C'' ''A'' exThree))) = [''C'', ''A'', ''B'']
   \<and> reorderItems Goals ''B'' ''C'' exThree = exThree"
proof -
  have tab: "tab exBoth = Task Goals"
    by (simp add: exBoth_def exApp_def)
  have src: "findItem ''C'' (tabItems Goals (items exThree)) = Some (exItem ''C'' ''write'' False)"
    by (simp add: exThree_def exApp_def exItem_def findItem_def tabItems_def)
  have fin: "findItem ''B'' (tabItems Goals (items exThree)) = Some (exItem ''B'' ''walk'' True)"
    by (simp add: exThree_def exApp_def exItem_def findItem_def tabItems_def)
  have open_src: "\<not> completed (exItem ''C'' ''write'' False)" and done_src: "completed (exItem ''B'' ''walk'' True)"
    by (simp_all add: exItem_def)
  have part: "incompleteFirst (tabItems Goals (items (completeTask 5000 ''A'' exBoth)))"
    using tab completion_and_reorder_partition [of exBoth Goals 5000 "''A''"] by simp
  have moved: "incompleteFirst (tabItems Goals (items (reorderItems Goals ''C'' ''A'' exThree)))"
    using src open_src
      completion_and_reorder_partition
        [where s = exThree and sourceId = "''C''" and targetId = "''A''" and a = Goals
           and src = "exItem ''C'' ''write'' False"]
    by simp
  have same: "reorderItems Goals ''B'' ''C'' exThree = exThree"
    using fin done_src
      completion_and_reorder_partition
        [where s = exThree and sourceId = "''B''" and targetId = "''C''" and a = Goals]
    by blast
  have order1: "map item_id (tabItems Goals (items (completeTask 5000 ''A'' exBoth))) = [''B'', ''A'']"
    by (simp add: completeTask_def completeList_def toggleItem_def findItem_def tabItems_def setTabItems_def
          getTimerDuration_def Let_def exBoth_def exApp_def exItem_def exCountdown_def exStopwatch_def)
  have order2: "map item_id (tabItems Goals (items (completeTask 5000 ''B'' exBoth))) = [''A'', ''B'']"
    "map completed (tabItems Goals (items (completeTask 5000 ''B'' exBoth))) = [False, False]"
    by (simp_all add: completeTask_def completeList_def toggleItem_def findItem_def tabItems_def setTabItems_def
          getTimerDuration_def Let_def exBoth_def exApp_def exItem_def exCountdown_def exStopwatch_def)
  have order3: "map item_id (tabItems Goals (items (reorderItems Goals ''C'' ''A'' exThree))) = [''C'', ''A'', ''B'']"
    by (simp add: reorderItems_def reorderList_def findItem_def tabItems_def setTabItems_def
          Let_def exThree_def exApp_def exItem_def)
  from tab part order1 order2 src moved order3 same show ?thesis by simp
qed

subsection \<open>Paused timers\<close>

lemma tickTimer_key [simp]: "fst (fst (tickTimer now kv)) = fst kv"
  by (simp add: tickTimer_def Let_def)

lemma tickTimer_paused: "\<not> isRunning (snd kv) \<Longrightarrow> tickTimer now kv = (kv, [])"
  by (simp add: tickTimer_def Let_def)

lemma map_of_tickTimer:
  "map_of (map (\<lambda>kv. fst (tickTimer now kv)) l) k
     = map_option (\<lambda>t. snd (fst (tickTimer now (k, t)))) (map_of l k)"
proof (induction l)
  case Nil
  show ?case by simp
next
  case (Cons kv l)
  obtain k' t' where kv: "kv = (k', t')" by (cases kv)
  have "fst (tickTimer now (k', t')) = (k', snd (fst (tickTimer now (k', t'))))"
    using tickTimer_key [of now "(k', t')"] by (cases "fst (tickTimer now (k', t'))") simp
  with Cons kv show ?case by simp
qed

lemma map_of_timers_tick:
  "map_of (timers (tick b now s)) k =
     (if now div 1000 = lastTickRef s then map_of (timers s) k
      else map_option (\<lambda>t. snd (fst (tickTimer now (k, t)))) (map_of (timers s) k))"
  by (simp add: tick_def Let_def comp_def map_of_tickTimer)

lemma tick_keeps_paused:
  "map_of (timers s) k = Some timer \<Longrightarrow> \<not> isRunning timer
   \<Longrightarrow> map_of (timers (tick b now s)) k = Some timer"
  by (simp add: map_of_timers_tick tickTimer_paused)

lemma ticks_keep_paused:
  "map_of (timers s) k = Some timer \<Longrightarrow> \<not> isRunning timer
   \<Longrightarrow> map_of (timers (ticks ts s)) k = Some timer"
  by (induction ts arbitrary: s) (simp_all add: tick_keeps_paused)

lemma tab_tick [simp]: "tab (tick b now s) = tab s"
  by (simp add: tick_def Let_def)

lemma tab_ticks [simp]: "tab (ticks ts s) = tab s"
  by (induction ts arbitrary: s) simp_all

lemma resume_paused:
  assumes "tab s \<noteq> Log" and "map_of (timers s) k = Some timer" and "\<not> isRunning timer"
  shows "map_of (timers (pauseResumeTimer now k s)) k =
     Some (timer\<lparr>isRunning :=
                   (case (if mode timer = Countdown
                          then map_option (\<lambda>target. max 0 (ceil_div1000 (target - now))) (targetTimeMs timer)
                          else None) of Some r \<Rightarrow> r > 0 | None \<Rightarrow> True),
                 startSeconds := (if mode timer = Stopwatch then Some (seconds timer) else None),
                 startRemaining := (if mode timer = Countdown then remainingSeconds timer else None),
                 remainingSeconds :=
                   (case (if mode timer = Countdown
                          then map_option (\<lambda>target. max 0 (ceil_div1000 (target - now))) (targetTimeMs timer)
                          else None) of Some r \<Rightarrow> Some r | None \<Rightarrow> remainingSeconds timer)\<rparr>)"
  using assms by (simp add: pauseResumeTimer_def isTaskTab_def Let_def update_conv')

text \<open>
  Claim C5, as stated, fails for a countdown driven by an absolute deadline.  A
  countdown to 12:02 AM is started at midnight (120 s), paused at once with 120 s
  remaining, ticked ten times in ten different seconds while paused, and resumed ten
  seconds after midnight: it then reads 110 s.
\<close>

theorem resume_deadline_countdown_counterexample:
  "map_option (\<lambda>t. (remainingSeconds t, isRunning t))
     (map_of (timers (ticks (map (Pair False) exTenTicks)
        (pauseResumeTimer 1793577600000 ''A'' (applyTimer 0 1793577600000 exTargetPopup)))) ''A'')
     = Some (Some 120, False)
   \<and> map_option (\<lambda>t. (remainingSeconds t, isRunning t))
     (map_of (timers (pauseResumeTimer 1793577610000 ''A'' (ticks (map (Pair False) exTenTicks)
        (pauseResumeTimer 1793577600000 ''A'' (applyTimer 0 1793577600000 exTargetPopup))))) ''A'')
     = Some (Some 110, True)"
proof -
  have started: "timers (pauseResumeTimer 1793577600000 ''A'' (applyTimer 0 1793577600000 exTargetPopup))
      = [(''A'', \<lparr>mode = Countdown, seconds = 0, remainingSeconds = Some 120,
                  totalSeconds = Some 120, elapsedSeconds = Some 0,
                  targetTimeMs = Some 1793577720000, isRunning = False, startSeconds = None,
                  startRemaining = None, itemText = ''read'', timer_tab = Goals\<rparr>)]"
    by (simp add: pauseResumeTimer_def applyTimer_def closeTimerPopup_def isTaskTab_def
          exTargetPopup_def exApp_def exItem_def findItem_def tabItems_def parseInt_def
          isSpace_def isDigit_def digits_value_def round_div1000_def msPerDay_def Let_def)
  have tabs: "tab (pauseResumeTimer 1793577600000 ''A'' (applyTimer 0 1793577600000 exTargetPopup)) \<noteq> Log"
    by (simp add: pauseResumeTimer_def applyTimer_def closeTimerPopup_def isTaskTab_def
          exTargetPopup_def exApp_def exItem_def findItem_def tabItems_def Let_def)
  have paused: "map_of (timers (ticks (map (Pair False) exTenTicks)
        (pauseResumeTimer 1793577600000 ''A'' (applyTimer 0 1793577600000 exTargetPopup)))) ''A''
      = Some \<lparr>mode = Countdown, seconds = 0, remainingSeconds = Some 120,
                  totalSeconds = Some 120, elapsedSeconds = Some 0,
                  targetTimeMs = Some 1793577720000, isRunning = False, startSeconds = None,
                  startRemaining = None, itemText = ''read'', timer_tab = Goals\<rparr>"
    by (rule ticks_keep_paused) (simp_all add: started)
  show ?thesis
    using tabs by (simp add: paused resume_paused ceil_div1000_def)
qed

text \<open>
  Claim C5, amended.  Ticks never change a timer whose \<open>isRunning\<close> is false.  A paused
  countdown without an absolute deadline (no \<open>targetTimeMs\<close>), ticked any number of
  times and then resumed, has the very \<open>remainingSeconds\<close> it was paused with (so 120
  stays 120) and is running again (on the log tab \<open>pauseResumeTimer\<close> does nothing, and
  the timer stays as it was).  A paused countdown with a deadline is given the remaining
  time \<open>max 0 \<lceil>(targetTimeMs - now) / 1000\<rceil>\<close> on resume.
\<close>

theorem paused_countdown_resumes_unchanged:
  assumes "map_of (timers s) k = Some timer"
    and "mode timer = Countdown" and "\<not> isRunning timer"
  shows "map_of (timers (ticks ts s)) k = Some timer
       \<and> (targetTimeMs timer = None \<longrightarrow>
            map_of (timers (pauseResumeTimer now k (ticks ts s))) k
              = Some (if tab s = Log then timer
                      else timer\<lparr>isRunning := True, startSeconds := None,
                                 startRemaining := remainingSeconds timer\<rparr>))
       \<and> (\<forall>target. targetTimeMs timer = Some target \<longrightarrow>
            map_of (timers (pauseResumeTimer now k (ticks ts s))) k
              = Some (if tab s = Log then timer
                      else timer\<lparr>isRunning := max 0 (ceil_div1000 (target - now)) > 0,
                                 startSeconds := None,
                                 startRemaining := remainingSeconds timer,
                                 remainingSeconds := Some (max 0 (ceil_div1000 (target - now)))\<rparr>))"
proof -
  have kept: "map_of (timers (ticks ts s)) k = Some timer"
    using assms by (simp add: ticks_keep_paused)
  show ?thesis
  proof (cases "tab s = Log")
    case True
    then have "pauseResumeTimer now k (ticks ts s) = ticks ts s"
      by (simp add: pauseResumeTimer_def isTaskTab_def)
    with True kept show ?thesis by simp
  next
    case False
    then have tabs: "tab (ticks ts s) \<noteq> Log" by simp
    show ?thesis
      using assms(2) False by (simp add: kept resume_paused [OF tabs kept assms(3)])
  qed
qed

theorem paused_countdown_resumes_unchanged_witness:
  "map_option (\<lambda>t. (mode t, remainingSeconds t, isRunning t, targetTimeMs t))
       (map_of (timers (exApp [exItem ''A'' ''read'' False] [(''A'', exCountdown 120 30 None False)])) ''A'')
       = Some (Countdown, Some 120, False, None)
   \<and> length exTenTicks = 10
   \<and> map_option (\<lambda>t. (remainingSeconds t, isRunning t))
       (map_of (timers (pauseResumeTimer 1793577610000 ''A''
          (ticks (map (Pair False) exTenTicks) (exApp [exItem ''A'' ''read'' False] [(''A'', exCountdown 120 30 None False)])))) ''A'')
       = Some (Some 120, True)
   \<and> map_option (\<lambda>t. (remainingSeconds t, isRunning t))
       (map_of (timers (pauseResumeTimer 1793577610000 ''A''
          (ticks (map (Pair False) exTenTicks) (exApp [exItem ''A'' ''read'' False]
             [(''A'', exCountdown 120 30 (Some 1793577720000) False)])))) ''A'')
       = Some (Some 110, True)"
  using paused_countdown_resumes_unchanged
      [of "exApp [exItem ''A'' ''read'' False] [(''A'', exCountdown 120 30 None False)]" "''A''"
          "exCountdown 120 30 None False" "map (Pair False) exTenTicks" 1793577610000]
    paused_countdown_resumes_unchanged
      [of "exApp [exItem ''A'' ''read'' False] [(''A'', exCountdown 120 30 (Some 1793577720000) False)]" "''A''"
          "exCountdown 120 30 (Some 1793577720000) False" "map (Pair False) exTenTicks" 1793577610000]
  by (simp add: exApp_def exCountdown_def exTenTicks_def ceil_div1000_def)

subsection \<open>A countdown run to its end\<close>

lemma tickTimer_logs_key: "e \<in> set (snd (tickTimer now kv)) \<Longrightarrow> itemId e = fst kv"
  by (auto simp: tickTimer_def Let_def split: if_splits)

lemma logsFor_other: "k \<noteq> fst kv \<Longrightarrow> logsFor k (snd (tickTimer now kv)) = []"
  by (auto simp: logsFor_def filter_empty_conv dest: tickTimer_logs_key)

lemma logsFor_own: "logsFor (fst kv) (snd (tickTimer now kv)) = snd (tickTimer now kv)"
  by (auto simp: logsFor_def filter_id_conv dest: tickTimer_logs_key)

lemma logsFor_Nil [simp]: "logsFor k [] = []"
  by (simp add: logsFor_def)

lemma logsFor_append [simp]: "logsFor k (xs @ ys) = logsFor k xs @ logsFor k ys"
  by (simp add: logsFor_def)

lemma logsFor_tick_all:
  "distinct (map fst l) \<Longrightarrow> map_of l k = Some t
   \<Longrightarrow> logsFor k (concat (map (\<lambda>kv. snd (tickTimer now kv)) l)) = snd (tickTimer now (k, t))"
proof (induction l)
  case Nil
  then show ?case by simp
next
  case (Cons kv l)
  obtain k' t' where kv: "kv = (k', t')" by (cases kv)
  show ?case
  proof (cases "k' = k")
    case True
    with Cons.prems kv have t: "t' = t" and notin: "k \<notin> fst ` set l" by auto
    have "logsFor k (concat (map (\<lambda>kv. snd (tickTimer now kv)) l)) = []"
      using notin by (induction l) (auto simp: logsFor_other)
    with True kv t show ?thesis using logsFor_own [where kv = "(k, t)" and now = now] by simp
  next
    case False
    with Cons kv show ?thesis by (simp add: logsFor_other)
  qed
qed

lemma distinct_tick: "distinct (map fst (timers (tick b now s))) = distinct (map fst (timers s))"
  by (simp add: tick_def Let_def comp_def)

lemma tick_fresh:
  assumes "now div 1000 \<noteq> lastTickRef s" and "distinct (map fst (timers s))"
    and "map_of (timers s) k = Some t"
  shows "map_of (timers (tick b now s)) k = Some (snd (fst (tickTimer now (k, t))))"
    and "\<exists>new. logs (tick b now s) = logs s @ new
           \<and> logsFor k new = (if b then snd (tickTimer now (k, t)) else [])"
    and "lastTickRef (tick b now s) = now div 1000"
proof -
  show "map_of (timers (tick b now s)) k = Some (snd (fst (tickTimer now (k, t))))"
    using assms(1,3) by (simp add: map_of_timers_tick)
  have pushed: "logsFor k (concat (map (\<lambda>kv. snd (tickTimer now kv)) (timers s)))
      = snd (tickTimer now (k, t))"
    using assms(2,3) by (rule logsFor_tick_all)
  show "\<exists>new. logs (tick b now s) = logs s @ new
           \<and> logsFor k new = (if b then snd (tickTimer now (k, t)) else [])"
  proof (cases b)
    case True
    have "logs (tick True now s) = logs s @ concat (map (\<lambda>kv. snd (tickTimer now kv)) (timers s))"
      using assms(1) by (simp add: tick_def Let_def comp_def)
    with True pushed show ?thesis by auto
  next
    case False
    have "logs (tick False now s) = logs s @ []"
      by (simp add: tick_def Let_def)
    with False show ?thesis by auto
  qed
  show "lastTickRef (tick b now s) = now div 1000"
    using assms(1) by (simp add: tick_def Let_def)
qed

lemma logs_tick_deferred: "logs (tick False now s) = logs s"
  by (simp add: tick_def Let_def)

lemma logs_ticks_deferred: "\<forall>r\<in>set rs. \<not> fst r \<Longrightarrow> logs (ticks rs s) = logs s"
  by (induction rs arbitrary: s) (simp_all add: logs_tick_deferred)

lemma tickTimer_countdown_step:
  assumes "isRunning t" and "mode t = Countdown"
    and "remainingSeconds t = Some r" and "elapsedSeconds t = Some e" and "2 \<le> r"
  shows "tickTimer now (k, t)
          = ((k, t\<lparr>remainingSeconds := Some (r - 1), elapsedSeconds := Some (e + 1)\<rparr>), [])"
  using assms by (simp add: tickTimer_def Let_def)

lemma tickTimer_countdown_last:
  assumes "isRunning t" and "mode t = Countdown"
    and "remainingSeconds t = Some 1" and "elapsedSeconds t = Some e" and "0 \<le> e"
  shows "tickTimer now (k, t)
          = ((k, t\<lparr>remainingSeconds := Some 0, elapsedSeconds := Some (e + 1),
                    isRunning := False, startRemaining := None\<rparr>),
             [buildLogEntryFromFields now k (itemText t) (timer_tab t) (e + 1)])"
  using assms by (simp add: tickTimer_def Let_def)

lemma countdown_run:
  assumes "distinct (map fst (timers s))" and "map_of (timers s) k = Some t"
    and "isRunning t" and "mode t = Countdown"
    and "remainingSeconds t = Some (int (length rs))" and "elapsedSeconds t = Some e"
    and "0 \<le> e" and "rs \<noteq> []" and "freshSeconds (lastTickRef s) (map snd rs)"
  shows "\<exists>t' new. map_of (timers (ticks rs s)) k = Some t'
           \<and> remainingSeconds t' = Some 0 \<and> \<not> isRunning t'
           \<and> elapsedSeconds t' = Some (e + int (length rs))
           \<and> logs (ticks rs s) = logs s @ new
           \<and> logsFor k new
               = (if fst (last rs)
                  then [buildLogEntryFromFields (snd (last rs)) k (itemText t) (timer_tab t)
                          (e + int (length rs))]
                  else [])"
  using assms
proof (induction rs arbitrary: s t e)
  case Nil
  then show ?case by simp
next
  case (Cons r rs)
  obtain b now where r: "r = (b, now)" by (cases r)
  from Cons.prems r have fresh: "now div 1000 \<noteq> lastTickRef s" by simp
  note tk = tick_fresh [OF fresh Cons.prems(1) Cons.prems(2), of b]
  show ?case
  proof (cases "rs = []")
    case True
    with Cons.prems have rem: "remainingSeconds t = Some 1" by simp
    have step: "tickTimer now (k, t)
          = ((k, t\<lparr>remainingSeconds := Some 0, elapsedSeconds := Some (e + 1),
                    isRunning := False, startRemaining := None\<rparr>),
             [buildLogEntryFromFields now k (itemText t) (timer_tab t) (e + 1)])"
      using Cons.prems(3,4) rem Cons.prems(6,7) by (rule tickTimer_countdown_last)
    from tk(2) obtain new where new: "logs (tick b now s) = logs s @ new"
      "logsFor k new = (if b then snd (tickTimer now (k, t)) else [])" by blast
    show ?thesis
      using True r tk(1) new by (simp add: step)
  next
    case False
    then have len: "2 \<le> int (length (r # rs))" by (cases rs) simp_all
    have step: "tickTimer now (k, t)
          = ((k, t\<lparr>remainingSeconds := Some (int (length (r # rs)) - 1),
                    elapsedSeconds := Some (e + 1)\<rparr>), [])"
      using Cons.prems(3,4,5,6) len by (rule tickTimer_countdown_step)
    let ?t1 = "t\<lparr>remainingSeconds := Some (int (length (r # rs)) - 1),
                  elapsedSeconds := Some (e + 1)\<rparr>"
    from tk(2) obtain new1 where new1: "logs (tick b now s) = logs s @ new1"
      "logsFor k new1 = []" by (auto simp: step)
    have "\<exists>t' new. map_of (timers (ticks rs (tick b now s))) k = Some t'
           \<and> remainingSeconds t' = Some 0 \<and> \<not> isRunning t'
           \<and> elapsedSeconds t' = Some (e + 1 + int (length rs))
           \<and> logs (ticks rs (tick b now s)) = logs (tick b now s) @ new
           \<and> logsFor k new
               = (if fst (last rs)
                  then [buildLogEntryFromFields (snd (last rs)) k (itemText ?t1) (timer_tab ?t1)
                          (e + 1 + int (length rs))]
                  else [])"
    proof (rule Cons.IH)
      show "distinct (map fst (timers (tick b now s)))"
        using Cons.prems(1) by (simp add: distinct_tick)
      show "map_of (timers (tick b now s)) k = Some ?t1"
        using tk(1) by (simp add: step)
      show "isRunning ?t1" "mode ?t1 = Countdown"
        using Cons.prems(3,4) by simp_all
      show "remainingSeconds ?t1 = Some (int (length rs))" by simp
      show "elapsedSeconds ?t1 = Some (e + 1)" by simp
      show "0 \<le> e + 1" using Cons.prems(7) by simp
      show "rs \<noteq> []" by (rule False)
      show "freshSeconds (lastTickRef (tick b now s)) (map snd rs)"
        using Cons.prems(9) r tk(3) by simp
    qed
    then obtain t' new where fin:
      "map_of (timers (ticks rs (tick b now s))) k = Some t'"
      "remainingSeconds t' = Some 0" "\<not> isRunning t'"
      "elapsedSeconds t' = Some (e + 1 + int (length rs))"
      "logs (ticks rs (tick b now s)) = logs (tick b now s) @ new"
      "logsFor k new
         = (if fst (last rs)
            then [buildLogEntryFromFields (snd (last rs)) k (itemText ?t1) (timer_tab ?t1)
                    (e + 1 + int (length rs))]
            else [])"
      by blast
    show ?thesis
    proof (intro exI [of _ t'] exI [of _ "new1 @ new"] conjI)
      show "map_of (timers (ticks (r # rs) s)) k = Some t'" using fin(1) r by simp
      show "remainingSeconds t' = Some 0" by (rule fin(2))
      show "\<not> isRunning t'" by (rule fin(3))
      show "elapsedSeconds t' = Some (e + int (length (r # rs)))"
        using fin(4) by simp
      show "logs (ticks (r # rs) s) = logs s @ new1 @ new"
        using fin(5) new1(1) r by simp
      show "logsFor k (new1 @ new)
          = (if fst (last (r # rs))
             then [buildLogEntryFromFields (snd (last (r # rs))) k (itemText t) (timer_tab t)
                     (e + int (length (r # rs)))]
             else [])"
        using fin(6) new1(2) False by (simp add: add.assoc)
    qed
  qed
qed

lemma applyTimer_duration:
  assumes "tab s = Task c" and "timerPopupItemId s = Some iid" and "iid \<noteq> []"
    and "findItem iid (tabItems c (items s)) = Some item" and "\<not> completed item"
    and "timerPopupMode s = DurationMode"
  shows "timers (applyTimer tz now s)
          = AList.update iid
              \<lparr>mode = Countdown, seconds = 0,
               remainingSeconds = Some (clampMinutes (timerPopupMinutes s) * 60),
               totalSeconds = Some (clampMinutes (timerPopupMinutes s) * 60),
               elapsedSeconds = Some 0, targetTimeMs = None, isRunning = True,
               startSeconds = None,
               startRemaining = Some (clampMinutes (timerPopupMinutes s) * 60),
               itemText = item_text item, timer_tab = c\<rparr> (timers s)"
    and "logs (applyTimer tz now s) = logs s"
    and "lastTickRef (applyTimer tz now s) = lastTickRef s"
  using assms findItem_Some_id [OF assms(4)]
  by (simp_all add: applyTimer_def closeTimerPopup_def Let_def)

text \<open>
  Claim C1.  A five-minute countdown (300 s) is started for a task from the timer popup
  and the tick handler then runs 300 times, each time in another whole second than the
  time before.  That always leaves the task's timer with \<open>remainingSeconds\<close> 0 and
  \<open>isRunning\<close> false.  The log entry is another matter: the log is the old log followed
  by new entries, and among them there is exactly one for that task, with
  \<open>durationSeconds\<close> 300, when React runs the updater of the last tick inside the call
  of \<^verbatim>\<open>setTimers\<close>; when React defers that updater, the entry is pushed after the
  callback has tested \<^verbatim>\<open>logsToAdd.length\<close> and is lost, so there is none for the task, and
  when every updater of the run is deferred nothing at all is appended.
\<close>

theorem countdown_300_entry_lost_when_updater_deferred:
  assumes "tab s = Task c" and "timerPopupItemId s = Some iid" and "iid \<noteq> []"
    and "findItem iid (tabItems c (items s)) = Some item" and "\<not> completed item"
    and "timerPopupMode s = DurationMode" and "timerPopupMinutes s = 5"
    and "distinct (map fst (timers s))"
    and "length rs = 300" and "freshSeconds (lastTickRef s) (map snd rs)"
  shows "\<exists>timer new. map_of (timers (ticks rs (applyTimer tz now s))) iid = Some timer
           \<and> remainingSeconds timer = Some 0 \<and> \<not> isRunning timer
           \<and> logs (ticks rs (applyTimer tz now s)) = logs s @ new
           \<and> (if fst (last rs)
               then (\<exists>e. logsFor iid new = [e] \<and> durationSeconds e = 300)
               else logsFor iid new = [])
           \<and> ((\<forall>r\<in>set rs. \<not> fst r) \<longrightarrow> new = [])"
proof -
  let ?t = "\<lparr>mode = Countdown, seconds = 0,
               remainingSeconds = Some (clampMinutes (timerPopupMinutes s) * 60),
               totalSeconds = Some (clampMinutes (timerPopupMinutes s) * 60),
               elapsedSeconds = Some 0, targetTimeMs = None, isRunning = True,
               startSeconds = None,
               startRemaining = Some (clampMinutes (timerPopupMinutes s) * 60),
               itemText = item_text item, timer_tab = c\<rparr>"
  note started = applyTimer_duration [OF assms(1-6), of tz now]
  have "\<exists>t' new. map_of (timers (ticks rs (applyTimer tz now s))) iid = Some t'
           \<and> remainingSeconds t' = Some 0 \<and> \<not> isRunning t'
           \<and> elapsedSeconds t' = Some (0 + int (length rs))
           \<and> logs (ticks rs (applyTimer tz now s)) = logs (applyTimer tz now s) @ new
           \<and> logsFor iid new
               = (if fst (last rs)
                  then [buildLogEntryFromFields (snd (last rs)) iid (itemText ?t) (timer_tab ?t)
                          (0 + int (length rs))]
                  else [])"
  proof (rule countdown_run)
    show "distinct (map fst (timers (applyTimer tz now s)))"
      using assms(8) by (simp add: started(1) distinct_update)
    show "map_of (timers (applyTimer tz now s)) iid = Some ?t"
      by (simp add: started(1) update_conv')
    show "isRunning ?t" "mode ?t = Countdown" "elapsedSeconds ?t = Some 0" "(0::int) \<le> 0"
      by simp_all
    show "remainingSeconds ?t = Some (int (length rs))"
      using assms(7,9) by (simp add: clampMinutes_def)
    show "rs \<noteq> []" using assms(9) by auto
    show "freshSeconds (lastTickRef (applyTimer tz now s)) (map snd rs)"
      using assms(10) by (simp add: started(3))
  qed
  then obtain t' new where run:
    "map_of (timers (ticks rs (applyTimer tz now s))) iid = Some t'"
    "remainingSeconds t' = Some 0" "\<not> isRunning t'"
    "logs (ticks rs (applyTimer tz now s)) = logs (applyTimer tz now s) @ new"
    "logsFor iid new
       = (if fst (last rs)
          then [buildLogEntryFromFields (snd (last rs)) iid (itemText ?t) (timer_tab ?t)
                  (0 + int (length rs))]
          else [])"
    by blast
  have none: "new = []" if "\<forall>r\<in>set rs. \<not> fst r"
  proof -
    from that have "logs (ticks rs (applyTimer tz now s)) = logs (applyTimer tz now s)"
      by (rule logs_ticks_deferred)
    with run(4) show ?thesis by simp
  qed
  show ?thesis
  proof (intro exI [of _ t'] exI [of _ new] conjI impI)
    show "map_of (timers (ticks rs (applyTimer tz now s))) iid = Some t'" by (rule run(1))
    show "remainingSeconds t' = Some 0" by (rule run(2))
    show "\<not> isRunning t'" by (rule run(3))
    show "logs (ticks rs (applyTimer tz now s)) = logs s @ new"
      using run(4) by (simp add: started(2))
    show "if fst (last rs)
          then (\<exists>e. logsFor iid new = [e] \<and> durationSeconds e = 300)
          else logsFor iid new = []"
      using run(5) assms(9) by simp
    show "new = []" if "\<forall>r\<in>set rs. \<not> fst r"
      using that by (rule none)
  qed
qed

theorem countdown_300_entry_lost_when_updater_deferred_witness:
  "tab exDurationPopup = Task Goals
   \<and> timerPopupItemId exDurationPopup = Some ''A''
   \<and> findItem ''A'' (tabItems Goals (items exDurationPopup)) = Some (exItem ''A'' ''read'' False)
   \<and> \<not> completed (exItem ''A'' ''read'' False)
   \<and> timerPopupMode exDurationPopup = DurationMode \<and> timerPopupMinutes exDurationPopup = 5
   \<and> distinct (map fst (timers exDurationPopup))
   \<and> length (map (Pair False) exTicks300) = 300
   \<and> freshSeconds (lastTickRef exDurationPopup) (map snd (map (Pair False) exTicks300))
   \<and> list_all (\<lambda>r. \<not> fst r) (map (Pair False) exTicks300)
   \<and> (\<exists>timer.
         map_of (timers (ticks (map (Pair False) exTicks300)
                   (applyTimer 0 1793577600000 exDurationPopup))) ''A'' = Some timer
         \<and> remainingSeconds timer = Some 0 \<and> \<not> isRunning timer)
   \<and> logs (ticks (map (Pair False) exTicks300) (applyTimer 0 1793577600000 exDurationPopup)) = []
   \<and> (\<exists>timer new e.
         map_of (timers (ticks (map (Pair True) exTicks300)
                   (applyTimer 0 1793577600000 exDurationPopup))) ''A'' = Some timer
         \<and> remainingSeconds timer = Some 0 \<and> \<not> isRunning timer
         \<and> logs (ticks (map (Pair True) exTicks300) (applyTimer 0 1793577600000 exDurationPopup))
             = logs exDurationPopup @ new
         \<and> logsFor ''A'' new = [e] \<and> durationSeconds e = 300)"
proof -
  have hyps: "tab exDurationPopup = Task Goals" "timerPopupItemId exDurationPopup = Some ''A''"
    "''A'' \<noteq> []"
    "findItem ''A'' (tabItems Goals (items exDurationPopup)) = Some (exItem ''A'' ''read'' False)"
    "\<not> completed (exItem ''A'' ''read'' False)"
    "timerPopupMode exDurationPopup = DurationMode" "timerPopupMinutes exDurationPopup = 5"
    "distinct (map fst (timers exDurationPopup))"
    by (simp_all add: exDurationPopup_def exApp_def exItem_def findItem_def tabItems_def)
  have nolog: "logs exDurationPopup = []"
    by (simp add: exDurationPopup_def exApp_def)
  have len: "length (map (Pair b) exTicks300) = 300" for b :: bool
    by (simp add: exTicks300_def)
  have nonempty: "exTicks300 \<noteq> []"
    using len [of True] by auto
  have seconds: "map snd (map (Pair b) exTicks300) = exTicks300" for b :: bool
    by (simp add: comp_def)
  have fresh0: "freshSeconds (lastTickRef exDurationPopup) exTicks300"
    unfolding exDurationPopup_def exApp_def exTicks300_def by code_simp
  have fresh: "freshSeconds (lastTickRef exDurationPopup) (map snd (map (Pair b) exTicks300))"
    for b :: bool
    using fresh0 by (simp only: seconds)
  have flag: "fst (last (map (Pair b) exTicks300)) = b" for b :: bool
    using nonempty by (simp add: last_map)
  have deferred: "\<forall>r\<in>set (map (Pair False) exTicks300). \<not> fst r"
    by simp
  from countdown_300_entry_lost_when_updater_deferred
         [OF hyps len [of False] fresh [of False], of 0 1793577600000]
  obtain timer new where lost:
    "map_of (timers (ticks (map (Pair False) exTicks300)
       (applyTimer 0 1793577600000 exDurationPopup))) ''A'' = Some timer"
    "remainingSeconds timer = Some 0" "\<not> isRunning timer"
    "logs (ticks (map (Pair False) exTicks300) (applyTimer 0 1793577600000 exDurationPopup))
       = logs exDurationPopup @ new"
    "new = []"
    using deferred by blast
  from countdown_300_entry_lost_when_updater_deferred
         [OF hyps len [of True] fresh [of True], of 0 1793577600000]
  have logged: "\<exists>timer new e.
         map_of (timers (ticks (map (Pair True) exTicks300)
                   (applyTimer 0 1793577600000 exDurationPopup))) ''A'' = Some timer
         \<and> remainingSeconds timer = Some 0 \<and> \<not> isRunning timer
         \<and> logs (ticks (map (Pair True) exTicks300) (applyTimer 0 1793577600000 exDurationPopup))
             = logs exDurationPopup @ new
         \<and> logsFor ''A'' new = [e] \<and> durationSeconds e = 300"
    by (simp only: flag if_True) blast
  have all_deferred: "list_all (\<lambda>r. \<not> fst r) (map (Pair False) exTicks300)"
    by (simp add: list_all_iff)
  have ended: "\<exists>timer.
         map_of (timers (ticks (map (Pair False) exTicks300)
                   (applyTimer 0 1793577600000 exDurationPopup))) ''A'' = Some timer
         \<and> remainingSeconds timer = Some 0 \<and> \<not> isRunning timer"
    using lost(1,2,3) by blast
  have empty: "logs (ticks (map (Pair False) exTicks300)
                  (applyTimer 0 1793577600000 exDurationPopup)) = []"
    using lost(4,5) nolog by simp
  from hyps(1,2,4,5,6,7,8) len [of False] fresh [of False] all_deferred ended empty logged
  show ?thesis by blast
qed

subsection \<open>Log entry ids\<close>

lemma digit_char_table: "\<forall>k\<in>set [0..<10]. (of_char (digit_char k) :: nat) = 48 + k"
  by code_simp

lemma digit_char_code: "k < 10 \<Longrightarrow> of_char (digit_char k) = 48 + k"
  using digit_char_table by simp

lemma in_set_tl: "x \<in> set (tl xs) \<Longrightarrow> x \<in> set xs"
  by (cases xs) simp_all

lemma digit_char_inj:
  assumes "j < 10" and "k < 10" and "digit_char j = digit_char k"
  shows "j = k"
proof -
  have "48 + j = (of_char (digit_char j) :: nat)"
    using assms(1) by (simp only: digit_char_code)
  also have "\<dots> = of_char (digit_char k)"
    by (simp only: assms(3))
  also have "\<dots> = 48 + k"
    using assms(2) by (simp only: digit_char_code)
  finally show ?thesis by simp
qed

lemma digit_char_not_minus:
  assumes "k < 10"
  shows "digit_char k \<noteq> CHR ''-''"
proof
  assume "digit_char k = CHR ''-''"
  then have "(of_char (digit_char k) :: nat) = of_char (CHR ''-'')" by (simp only:)
  then have "48 + k = (45 :: nat)" using assms by (simp add: digit_char_code)
  then show False by simp
qed

lemma digits_nonempty: "digits n \<noteq> []"
  by (subst digits.simps) simp

lemma digits_no_minus: "CHR ''-'' \<notin> set (digits n)"
proof (induction n rule: digits.induct)
  case (1 n)
  show ?case
  proof (cases "n < 10")
    case True
    then show ?thesis
      using digit_char_not_minus [of n] by (subst digits.simps) auto
  next
    case False
    then show ?thesis
      using "1" digit_char_not_minus [of "n mod 10"] by (subst digits.simps) auto
  qed
qed

lemma digits_inj: "digits m = digits n \<Longrightarrow> m = n"
proof (induction m arbitrary: n rule: digits.induct)
  case (1 m)
  show ?case
  proof (cases "m < 10")
    case m: True
    show ?thesis
    proof (cases "n < 10")
      case True
      with m "1.prems" show ?thesis
        by (simp add: digits.simps [of m] digits.simps [of n] digit_char_inj)
    next
      case False
      with m "1.prems" digits_nonempty [of "n div 10"] show ?thesis
        by (simp add: digits.simps [of m] digits.simps [of n] Cons_eq_append_conv)
    qed
  next
    case m: False
    show ?thesis
    proof (cases "n < 10")
      case True
      with m "1.prems" digits_nonempty [of "m div 10"] show ?thesis
        by (simp add: digits.simps [of m] digits.simps [of n] append_eq_Cons_conv)
    next
      case False
      with m "1.prems" have a: "digits (m div 10) = digits (n div 10)"
        and b: "digit_char (m mod 10) = digit_char (n mod 10)"
        by (simp_all add: digits.simps [of m] digits.simps [of n])
      from a have "m div 10 = n div 10" using "1.IH" m by simp
      moreover from b have "m mod 10 = n mod 10" by (simp add: digit_char_inj)
      ultimately show ?thesis by (metis div_mult_mod_eq)
    qed
  qed
qed

lemma show_int_nonempty: "show_int a \<noteq> []"
  by (simp add: show_int_def digits_nonempty)

lemma show_int_tail_no_minus: "CHR ''-'' \<notin> set (tl (show_int a))"
  using digits_no_minus [of "nat a"] digits_no_minus [of "nat (- a)"]
  by (auto simp: show_int_def dest: in_set_tl)

lemma show_int_inj: "show_int a = show_int b \<Longrightarrow> a = b"
proof -
  assume eq: "show_int a = show_int b"
  have head: "hd (digits n) \<noteq> CHR ''-''" for n
    using digits_no_minus [of n] digits_nonempty [of n] by (cases "digits n") auto
  have neg: "hd (show_int c) = CHR ''-''" if "c < 0" for c
    using that by (simp add: show_int_def)
  have pos: "hd (show_int c) \<noteq> CHR ''-''" if "\<not> c < 0" for c
    using that head [of "nat c"] by (simp add: show_int_def)
  show ?thesis
  proof (cases "a < 0")
    case a: True
    show ?thesis
    proof (cases "b < 0")
      case True
      with a eq have "nat (- a) = nat (- b)" by (simp add: show_int_def digits_inj)
      with a True show ?thesis by simp
    next
      case False
      with a eq neg [of a] pos [of b] show ?thesis by simp
    qed
  next
    case a: False
    show ?thesis
    proof (cases "b < 0")
      case True
      with a eq neg [of b] pos [of a] show ?thesis by simp
    next
      case False
      with a eq have "nat a = nat b" by (simp add: show_int_def digits_inj)
      with a False show ?thesis by simp
    qed
  qed
qed

lemma not_proper_prefix:
  assumes "show_int a = show_int b @ CHR ''-'' # us"
  shows False
proof -
  have "CHR ''-'' \<in> set (tl (show_int b @ CHR ''-'' # us))"
    using show_int_nonempty [of b] by (cases "show_int b") simp_all
  with assms show_int_tail_no_minus [of a] show False by simp
qed

lemma id_text_inj:
  "show_int a @ ''-'' @ x = show_int b @ ''-'' @ y \<longleftrightarrow> a = b \<and> x = y"
proof
  assume eq: "show_int a @ ''-'' @ x = show_int b @ ''-'' @ y"
  then obtain us where
    "(show_int a = show_int b @ us \<and> us @ CHR ''-'' # x = CHR ''-'' # y)
     \<or> (show_int a @ us = show_int b \<and> CHR ''-'' # x = us @ CHR ''-'' # y)"
    by (auto simp: append_eq_append_conv2)
  then have "show_int a = show_int b"
  proof
    assume h: "show_int a = show_int b @ us \<and> us @ CHR ''-'' # x = CHR ''-'' # y"
    show ?thesis
    proof (cases us)
      case Nil
      with h show ?thesis by simp
    next
      case (Cons u us')
      with h have "show_int a = show_int b @ CHR ''-'' # us'" by simp
      then show ?thesis using not_proper_prefix by blast
    qed
  next
    assume h: "show_int a @ us = show_int b \<and> CHR ''-'' # x = us @ CHR ''-'' # y"
    show ?thesis
    proof (cases us)
      case Nil
      with h show ?thesis by simp
    next
      case (Cons u us')
      with h have "show_int b = show_int a @ CHR ''-'' # us'" by auto
      then show ?thesis using not_proper_prefix by blast
    qed
  qed
  with eq show "a = b \<and> x = y" by (simp add: show_int_inj)
next
  assume "a = b \<and> x = y"
  then show "show_int a @ ''-'' @ x = show_int b @ ''-'' @ y" by simp
qed

text \<open>
  Claim C8, as stated, fails: two entries for the same task built in the same
  millisecond share their id.  Task A, with a stopwatch at 7 s, is checked off,
  unchecked and checked off again, all at the clock value 1793577600000.  The first
  check-off logs 7 s; the second logs 0 s, another duration, so the request is not
  dropped; both entries have the id \<open>1793577600000-A\<close>.
\<close>

theorem same_millisecond_ids_counterexample:
  "map (\<lambda>e. (entry_id e, durationSeconds e))
     (logs (toggleComplete 1793577600000 ''A'' (toggleComplete 1793577600000 ''A''
        (toggleComplete 1793577600000 ''A''
           (exApp [exItem ''A'' ''read'' False] [(''A'', exStopwatch 7 True)])))))
     = [(''1793577600000-A'', 7), (''1793577600000-A'', 0)]"
  by (simp add: toggleComplete_def completeTask_def completeList_def toggleItem_def
        appendLogEntry_def getTimerDuration_def findItem_def tabItems_def setTabItems_def Let_def
        exApp_def exItem_def exStopwatch_def show_int_def digits.simps digit_char_def)

text \<open>
  Claim C8, amended.  The id of a log entry is the end timestamp in decimal, a hyphen
  and the task id, whichever of the two builders made it; two entries have the same id
  exactly when they were built at the same millisecond for the same task id.  So ids
  are unique among entries that differ in task or in the millisecond of their end.
\<close>

theorem log_entry_id_unique_per_ms_and_task:
  "entry_id (buildLogEntry t1 item1 d1 c1) = show_int t1 @ ''-'' @ item_id item1
   \<and> entry_id (buildLogEntryFromFields t1 i1 txt1 c1 d1) = show_int t1 @ ''-'' @ i1
   \<and> (entry_id (buildLogEntry t1 item1 d1 c1) = entry_id (buildLogEntry t2 item2 d2 c2)
        \<longleftrightarrow> t1 = t2 \<and> item_id item1 = item_id item2)
   \<and> (entry_id (buildLogEntryFromFields t1 i1 txt1 c1 d1)
         = entry_id (buildLogEntryFromFields t2 i2 txt2 c2 d2)
        \<longleftrightarrow> t1 = t2 \<and> i1 = i2)
   \<and> (entry_id (buildLogEntryFromFields t1 i1 txt1 c1 d1) = entry_id (buildLogEntry t2 item2 d2 c2)
        \<longleftrightarrow> t1 = t2 \<and> i1 = item_id item2)"
  by (simp add: id_text_inj del: append.simps)

end
